theory Spec2Isabelle
  imports Complex_Main "HOL-Library.Log_Nat" "HOL-Library.Code_Target_Numeral"
begin

section \<open>JavaScript values used by the rule engine of app.js\<close>

text \<open>
  The dashboard loads three JSON files and evaluates declarative rules on them
  (\<^verbatim>\<open>checkOneCondition\<close>, \<^verbatim>\<open>checkOneRule\<close>, \<^verbatim>\<open>checkAllRules\<close> and the hit counts of
  \<^verbatim>\<open>renderRules\<close> and \<^verbatim>\<open>renderStats\<close>). The engine uses four built-ins of the language:
  \<^verbatim>\<open>String\<close>, \<^verbatim>\<open>parseFloat\<close>, the relational operators on numbers and \<^verbatim>\<open>Math.round\<close>,
  and it reads properties by computed names. They are embedded here after ECMA-262,
  executable, so that the engine can be run on concrete data.

  Scope of the embedding.
  \<^item> Values are the values \<^verbatim>\<open>JSON.parse\<close> produces, \<^verbatim>\<open>undefined\<close> (an absent property),
    and the built-in objects that a property read finds on \<^verbatim>\<open>Object.prototype\<close>.
  \<^item> A number is an IEEE 754 double: not-a-number, an infinity, or a real number that
    the constructor \<open>Fin\<close> carries (in a JSON value, the double the parser produced).
    Every arithmetic result and every parsed decimal is rounded to the nearest double,
    ties to even (\<open>to_double\<close>). The two zeros are one value: the engine never
    divides by a value that can be \<^verbatim>\<open>-0\<close>, and \<^verbatim>\<open>String\<close> and the comparisons do not tell
    them apart.
  \<^item> A string is a sequence of UTF-16 code units; \<open>char\<close> carries the code units
    0 to 255.
  \<^item> A parsed object is the list of its own properties, and its prototype is
    \<^verbatim>\<open>Object.prototype\<close>. A property read follows the prototype chain. What
    \<^verbatim>\<open>Object.prototype\<close> holds, and how a built-in function prints, is left to the
    implementation by the language and is a parameter of the embedding (\<open>engine\<close>).
  \<^item> \<^verbatim>\<open>String\<close>, \<^verbatim>\<open>parseFloat\<close> and a computed property name convert a value to a string,
    and the conversion of an object throws a TypeError when the object has an own
    property \<^verbatim>\<open>toString\<close>, as \<^verbatim>\<open>JSON.parse('{"toString":1}')\<close> has. Every function of the
    engine therefore returns a result or an error.
  \<^item> A transaction, a feature vector, a rule and a condition are objects, and a rule has
    an array of conditions, as in the three JSON files.
\<close>

subsection \<open>Numbers\<close>

datatype jsnum = NaN | PosInf | NegInf | Fin real

definition pow2 :: "int \<Rightarrow> real" where
  "pow2 e = (if 0 \<le> e then 2 ^ nat e else 1 / 2 ^ nat (- e))"

definition pow10 :: "int \<Rightarrow> real" where
  "pow10 e = (if 0 \<le> e then 10 ^ nat e else 1 / 10 ^ nat (- e))"

definition ilog2 :: "real \<Rightarrow> int" where
  \<comment> \<open>for \<open>0 < x\<close>: the exponent \<open>e\<close> with \<open>2 ^ e \<le> x < 2 ^ (e + 1)\<close>\<close>
  "ilog2 x = (if 1 \<le> x then int (floorlog 2 (nat \<lfloor>x\<rfloor>)) - 1
              else - int (floorlog 2 (nat (\<lceil>1 / x\<rceil> - 1))))"

definition ilog10 :: "real \<Rightarrow> int" where
  \<comment> \<open>for \<open>0 < x\<close>: the \<open>n\<close> with \<open>10 ^ (n - 1) \<le> x < 10 ^ n\<close>\<close>
  "ilog10 x = (if 1 \<le> x then int (floorlog 10 (nat \<lfloor>x\<rfloor>))
               else 1 - int (floorlog 10 (nat (\<lceil>1 / x\<rceil> - 1))))"

definition round_half_even :: "real \<Rightarrow> int" where
  "round_half_even y =
     (let f = \<lfloor>y\<rfloor>; d = y - of_int f
      in if d < 1 / 2 then f else if 1 / 2 < d then f + 1 else if even f then f else f + 1)"

definition double_of_pos :: "real \<Rightarrow> jsnum" where
  \<comment> \<open>binary64: 53 significant bits, least exponent -1022 (below it the spacing stays
      \<open>2 ^ -1074\<close>), overflow to infinity from \<open>2 ^ 1024\<close> on\<close>
  "double_of_pos x =
     (let e = max (ilog2 x) (- 1022);
          ulp = pow2 (e - 52);
          r = of_int (round_half_even (x / ulp)) * ulp
      in if pow2 1024 \<le> r then PosInf else Fin r)"

definition num_neg :: "jsnum \<Rightarrow> jsnum" where
  "num_neg a = (case a of NaN \<Rightarrow> NaN | PosInf \<Rightarrow> NegInf | NegInf \<Rightarrow> PosInf | Fin x \<Rightarrow> Fin (- x))"

definition to_double :: "real \<Rightarrow> jsnum" where
  "to_double x =
     (if x = 0 then Fin 0 else if 0 < x then double_of_pos x else num_neg (double_of_pos (- x)))"

text \<open>
  The abstract relational comparison \<^verbatim>\<open>x < y\<close> of two numbers is true, false or
  undefined (\<open>None\<close>, when an operand is NaN). \<^verbatim>\<open>a > b\<close> is \<^verbatim>\<open>b < a\<close>; \<^verbatim>\<open>a >= b\<close> holds when
  \<^verbatim>\<open>a < b\<close> is false, \<^verbatim>\<open>a <= b\<close> when \<^verbatim>\<open>b < a\<close> is false; undefined makes each of them false.
\<close>

fun num_lessThan :: "jsnum \<Rightarrow> jsnum \<Rightarrow> bool option" where
  "num_lessThan NaN _ = None"
| "num_lessThan _ NaN = None"
| "num_lessThan (Fin a) (Fin b) = Some (a < b)"
| "num_lessThan PosInf _ = Some False"
| "num_lessThan _ NegInf = Some False"
| "num_lessThan NegInf _ = Some True"
| "num_lessThan _ PosInf = Some True"

definition num_lt :: "jsnum \<Rightarrow> jsnum \<Rightarrow> bool" where
  "num_lt a b = (num_lessThan a b = Some True)"

definition num_gt :: "jsnum \<Rightarrow> jsnum \<Rightarrow> bool" where
  "num_gt a b = (num_lessThan b a = Some True)"

definition num_ge :: "jsnum \<Rightarrow> jsnum \<Rightarrow> bool" where
  "num_ge a b = (num_lessThan a b = Some False)"

definition num_le :: "jsnum \<Rightarrow> jsnum \<Rightarrow> bool" where
  "num_le a b = (num_lessThan b a = Some False)"

definition num_div :: "jsnum \<Rightarrow> jsnum \<Rightarrow> jsnum" where
  \<comment> \<open>\<^verbatim>\<open>a / b\<close>; a zero divisor is \<^verbatim>\<open>+0\<close>\<close>
  "num_div a b =
     (case (a, b) of
        (NaN, _) \<Rightarrow> NaN
      | (_, NaN) \<Rightarrow> NaN
      | (Fin x, Fin y) \<Rightarrow>
          if y = 0 then (if x = 0 then NaN else if 0 < x then PosInf else NegInf)
          else to_double (x / y)
      | (Fin x, _) \<Rightarrow> Fin 0
      | (PosInf, Fin y) \<Rightarrow> if 0 \<le> y then PosInf else NegInf
      | (NegInf, Fin y) \<Rightarrow> if 0 \<le> y then NegInf else PosInf
      | (_, _) \<Rightarrow> NaN)"

definition num_mul :: "jsnum \<Rightarrow> jsnum \<Rightarrow> jsnum" where
  "num_mul a b =
     (case (a, b) of
        (NaN, _) \<Rightarrow> NaN
      | (_, NaN) \<Rightarrow> NaN
      | (Fin x, Fin y) \<Rightarrow> to_double (x * y)
      | (Fin x, PosInf) \<Rightarrow> if x = 0 then NaN else if 0 < x then PosInf else NegInf
      | (Fin x, NegInf) \<Rightarrow> if x = 0 then NaN else if 0 < x then NegInf else PosInf
      | (PosInf, Fin y) \<Rightarrow> if y = 0 then NaN else if 0 < y then PosInf else NegInf
      | (NegInf, Fin y) \<Rightarrow> if y = 0 then NaN else if 0 < y then NegInf else PosInf
      | (PosInf, PosInf) \<Rightarrow> PosInf
      | (NegInf, NegInf) \<Rightarrow> PosInf
      | (_, _) \<Rightarrow> NegInf)"

definition Math_round :: "jsnum \<Rightarrow> jsnum" where
  \<comment> \<open>the nearest integer, the larger one of two equally near\<close>
  "Math_round a = (case a of Fin x \<Rightarrow> Fin (of_int \<lfloor>x + 1 / 2\<rfloor>) | _ \<Rightarrow> a)"

subsection \<open>Strings\<close>

definition is_digit :: "char \<Rightarrow> bool" where
  "is_digit c = (48 \<le> (of_char c :: nat) \<and> (of_char c :: nat) \<le> 57)"

definition digit_val :: "char \<Rightarrow> nat" where
  "digit_val c = of_char c - 48"

definition digit_char :: "nat \<Rightarrow> char" where
  "digit_char d = ''0123456789'' ! d"

definition is_space :: "char \<Rightarrow> bool" where
  \<comment> \<open>white space and line terminators among the code units 0 to 255:
      TAB, LF, VT, FF, CR, SP, NBSP\<close>
  "is_space c = ((of_char c :: nat) \<in> {9, 10, 11, 12, 13, 32, 160})"

definition lower_char :: "char \<Rightarrow> char" where
  \<comment> \<open>A to Z, and the capital letters of Latin-1 (0xC0 to 0xDE without the sign 0xD7)\<close>
  "lower_char c =
     (let n = (of_char c :: nat)
      in if (65 \<le> n \<and> n \<le> 90) \<or> (192 \<le> n \<and> n \<le> 222 \<and> n \<noteq> 215) then char_of (n + 32) else c)"

definition toLowerCase :: "string \<Rightarrow> string" where
  "toLowerCase s = map lower_char s"

definition starts_with :: "string \<Rightarrow> string \<Rightarrow> bool" where
  "starts_with s p = (take (length p) s = p)"

fun includes_str :: "string \<Rightarrow> string \<Rightarrow> bool" where
  "includes_str [] p = (p = [])"
| "includes_str (c # s) p = (starts_with (c # s) p \<or> includes_str s p)"

fun join_comma :: "string list \<Rightarrow> string" where
  "join_comma [] = []"
| "join_comma [s] = s"
| "join_comma (s # t # ts) = s @ '','' @ join_comma (t # ts)"

fun digits_of_nat :: "nat \<Rightarrow> string" where
  "digits_of_nat n = (if n < 10 then [digit_char n] else digits_of_nat (n div 10) @ [digit_char (n mod 10)])"

declare digits_of_nat.simps [simp del]

definition digits_value :: "string \<Rightarrow> nat" where
  "digits_value s = foldl (\<lambda>a c. 10 * a + digit_val c) 0 s"

subsection \<open>Number to string\<close>

text \<open>
  \<^verbatim>\<open>Number::toString\<close> writes a finite non-zero number with the least count \<open>k\<close> of
  digits \<open>s\<close> for which \<open>s * 10 ^ (n - k)\<close> still rounds to the number, and of the
  candidates the nearest. \<open>digit_candidates\<close> lists them for one \<open>k\<close>: the two
  integers around \<open>x / 10 ^ (n - k)\<close>, the upper one renormalised when it is \<open>10 ^ k\<close>.
\<close>

definition digit_candidates :: "real \<Rightarrow> int \<Rightarrow> nat \<Rightarrow> (int \<times> int) list" where
  "digit_candidates x n k =
     (let lo = \<lfloor>x / pow10 (n - int k)\<rfloor>;
          hi = lo + 1
      in filter (\<lambda>(s, m). to_double (of_int s * pow10 (m - int k)) = Fin x)
           [(lo, n), if hi = 10 ^ k then (10 ^ (k - 1), n + 1) else (hi, n)])"

definition nearest_candidate :: "real \<Rightarrow> nat \<Rightarrow> (int \<times> int) list \<Rightarrow> (int \<times> int) option" where
  "nearest_candidate x k cs =
     (case cs of
        [] \<Rightarrow> None
      | [c] \<Rightarrow> Some c
      | (s1, n1) # (s2, n2) # _ \<Rightarrow>
          (let d1 = \<bar>of_int s1 * pow10 (n1 - int k) - x\<bar>;
               d2 = \<bar>of_int s2 * pow10 (n2 - int k) - x\<bar>
           in if d1 < d2 then Some (s1, n1)
              else if d2 < d1 then Some (s2, n2)
              else if even s1 then Some (s1, n1) else Some (s2, n2)))"

fun shortest_digits :: "real \<Rightarrow> int \<Rightarrow> nat \<Rightarrow> nat \<Rightarrow> nat \<times> int \<times> int" where
  \<comment> \<open>\<open>(k, s, n)\<close>; 17 digits always identify a double, so the search from \<open>k = 1\<close>
      with fuel 17 ends in the first branch\<close>
  "shortest_digits x n k 0 = (k, \<lfloor>x / pow10 (n - int k)\<rfloor>, n)"
| "shortest_digits x n k (Suc fuel) =
     (case nearest_candidate x k (digit_candidates x n k) of
        Some (s, m) \<Rightarrow> (k, s, m)
      | None \<Rightarrow> shortest_digits x n (k + 1) fuel)"

definition format_digits :: "string \<Rightarrow> int \<Rightarrow> string" where
  \<comment> \<open>the digits \<open>ds\<close> (\<open>k\<close> of them) with the decimal point after the \<open>n\<close>-th\<close>
  "format_digits ds n =
     (let k = int (length ds)
      in if k \<le> n \<and> n \<le> 21 then ds @ replicate (nat (n - k)) CHR ''0''
         else if 0 < n \<and> n \<le> 21 then take (nat n) ds @ ''.'' @ drop (nat n) ds
         else if - 6 < n \<and> n \<le> 0 then ''0.'' @ replicate (nat (- n)) CHR ''0'' @ ds
         else (let e = n - 1;
                   ex = (if 0 \<le> e then ''+'' else ''-'') @ digits_of_nat (nat \<bar>e\<bar>)
               in if k = 1 then ds @ ''e'' @ ex
                  else take 1 ds @ ''.'' @ drop 1 ds @ ''e'' @ ex))"

definition pos_to_string :: "real \<Rightarrow> string" where
  "pos_to_string x =
     (case shortest_digits x (ilog10 x) 1 17 of
        (k, s, n) \<Rightarrow> format_digits (digits_of_nat (nat s)) n)"

definition number_to_string :: "jsnum \<Rightarrow> string" where
  "number_to_string a =
     (case a of
        NaN \<Rightarrow> ''NaN''
      | PosInf \<Rightarrow> ''Infinity''
      | NegInf \<Rightarrow> ''-Infinity''
      | Fin x \<Rightarrow> if x = 0 then ''0'' else if x < 0 then ''-'' @ pos_to_string (- x) else pos_to_string x)"

subsection \<open>String to number: \<^verbatim>\<open>parseFloat\<close>\<close>

text \<open>
  \<^verbatim>\<open>parseFloat\<close> skips leading white space and reads the longest prefix that is a
  \<^verbatim>\<open>StrDecimalLiteral\<close>: an optional sign, then \<^verbatim>\<open>Infinity\<close> or digits with an optional
  fraction and an optional exponent. The rest of the string is ignored; with no such
  prefix the result is NaN. The value is rounded to the nearest double.
\<close>

definition exponent_part :: "string \<Rightarrow> int" where
  \<comment> \<open>the value of an \<^verbatim>\<open>ExponentPart\<close> at the head of the string, 0 when there is none\<close>
  "exponent_part s =
     (case s of
        [] \<Rightarrow> 0
      | c # r \<Rightarrow>
          if c = CHR ''e'' \<or> c = CHR ''E'' then
            (case r of
               [] \<Rightarrow> 0
             | d # r' \<Rightarrow>
                 if d = CHR ''+'' then int (digits_value (takeWhile is_digit r'))
                 else if d = CHR ''-'' then - int (digits_value (takeWhile is_digit r'))
                 else int (digits_value (takeWhile is_digit r)))
          else 0)"

definition unsigned_decimal :: "string \<Rightarrow> real option" where
  "unsigned_decimal s =
     (let ip = takeWhile is_digit s;
          r1 = dropWhile is_digit s;
          dot = (r1 \<noteq> [] \<and> hd r1 = CHR ''.'');
          fp = (if dot then takeWhile is_digit (tl r1) else []);
          r2 = (if dot then dropWhile is_digit (tl r1) else r1)
      in if ip = [] \<and> fp = [] then None
         else Some ((real (digits_value ip) + real (digits_value fp) / 10 ^ length fp)
                     * pow10 (exponent_part r2)))"

definition parse_float_string :: "string \<Rightarrow> jsnum" where
  "parse_float_string s =
     (let t = dropWhile is_space s;
          neg = (t \<noteq> [] \<and> hd t = CHR ''-'');
          u = (if t \<noteq> [] \<and> (hd t = CHR ''-'' \<or> hd t = CHR ''+'') then tl t else t);
          mag = (if starts_with u ''Infinity'' then PosInf
                 else case unsigned_decimal u of None \<Rightarrow> NaN | Some v \<Rightarrow> to_double v)
      in if neg then num_neg mag else mag)"

subsection \<open>Values, errors and the built-in objects\<close>

text \<open>
  \<open>JObj\<close> is an object made by \<^verbatim>\<open>JSON.parse\<close>, given by its own properties, each name once.
  \<open>JHost\<close> is a built-in object of the engine that runs the script, identified by a
  name: the functions that \<^verbatim>\<open>Object.prototype\<close> holds, and what can be read from them. No
  JSON file contains one, but a property read finds them along the prototype chain.
\<close>

datatype jsval =
    JUndefined
  | JNull
  | JBool bool
  | JNum jsnum
  | JStr string
  | JArr "jsval list"
  | JObj "(string \<times> jsval) list"
  | JHost string

datatype error = TypeError

type_synonym object = "(string \<times> jsval) list"

text \<open>
  What the script's engine contributes is a parameter of the embedding:
  \<^item> \<open>proto_member k\<close>: the built-in object that a read of the property \<open>k\<close> through an
    object without an own \<open>k\<close> finds on \<^verbatim>\<open>Object.prototype\<close>, if there is one;
  \<^item> \<open>host_member n k\<close>: the result of reading the property \<open>k\<close> of the built-in object
    \<open>n\<close> (a value, or a thrown error);
  \<^item> \<open>host_string n\<close>: \<^verbatim>\<open>String\<close> of the built-in object \<open>n\<close> (for a function, its
    implementation-defined source text).
\<close>

record engine =
  proto_member :: "string \<Rightarrow> string option"
  host_member :: "string \<Rightarrow> string \<Rightarrow> error + jsval"
  host_string :: "string \<Rightarrow> error + string"

definition and_then :: "error + 'a \<Rightarrow> ('a \<Rightarrow> error + 'b) \<Rightarrow> error + 'b" where
  \<comment> \<open>the next step runs unless the one before has thrown\<close>
  "and_then m f = (case m of Inl e \<Rightarrow> Inl e | Inr x \<Rightarrow> f x)"

text \<open>
  \<^verbatim>\<open>String(v)\<close>. A plain object is converted by the first callable of its \<^verbatim>\<open>toString\<close> and
  \<^verbatim>\<open>valueOf\<close> that returns a primitive. The inherited \<^verbatim>\<open>toString\<close> returns
  \<^verbatim>\<open>[object Object]\<close>; an own property \<^verbatim>\<open>toString\<close> of a parsed object hides it and is not
  callable, \<^verbatim>\<open>valueOf\<close> then is not callable or returns the object itself, and the
  conversion throws a TypeError. An array is joined with commas, an element that is
  \<^verbatim>\<open>null\<close> or \<^verbatim>\<open>undefined\<close> giving the empty string; the conversion of an element can
  throw.
\<close>

fun to_string :: "engine \<Rightarrow> jsval \<Rightarrow> error + string"
  and element_strings :: "engine \<Rightarrow> jsval list \<Rightarrow> error + string list" where
  "to_string E JUndefined = Inr ''undefined''"
| "to_string E JNull = Inr ''null''"
| "to_string E (JBool b) = Inr (if b then ''true'' else ''false'')"
| "to_string E (JNum a) = Inr (number_to_string a)"
| "to_string E (JStr s) = Inr s"
| "to_string E (JArr xs) =
     (case element_strings E xs of Inl e \<Rightarrow> Inl e | Inr ss \<Rightarrow> Inr (join_comma ss))"
| "to_string E (JObj ps) =
     (if map_of ps ''toString'' = None then Inr ''[object Object]'' else Inl TypeError)"
| "to_string E (JHost n) = host_string E n"
| "element_strings E [] = Inr []"
| "element_strings E (x # xs) =
     (case (if x = JUndefined \<or> x = JNull then Inr [] else to_string E x) of
        Inl e \<Rightarrow> Inl e
      | Inr s \<Rightarrow> (case element_strings E xs of Inl e \<Rightarrow> Inl e | Inr ss \<Rightarrow> Inr (s # ss)))"

definition parseFloat :: "engine \<Rightarrow> jsval \<Rightarrow> error + jsnum" where
  "parseFloat E v = and_then (to_string E v) (\<lambda>s. Inr (parse_float_string s))"

text \<open>
  \<^verbatim>\<open>obj[key]\<close> on a parsed object: the key is converted to a string, which can throw;
  the own property is read if there is one, else the member of \<^verbatim>\<open>Object.prototype\<close> of
  that name if there is one, else the result is \<^verbatim>\<open>undefined\<close>.
\<close>

definition get_prop :: "engine \<Rightarrow> object \<Rightarrow> jsval \<Rightarrow> error + jsval" where
  "get_prop E obj key =
     and_then (to_string E key)
       (\<lambda>k. Inr (case map_of obj k of
                   Some v \<Rightarrow> v
                 | None \<Rightarrow> (case proto_member E k of Some n \<Rightarrow> JHost n | None \<Rightarrow> JUndefined)))"

text \<open>
  The value of the variable \<^verbatim>\<open>featureVector\<close>, when it is not \<^verbatim>\<open>undefined\<close>: a parsed
  object stored under the transaction's id, or a built-in object found under that name
  on \<^verbatim>\<open>Object.prototype\<close>.
\<close>

datatype objref = Plain object | Host string

definition get_ref :: "engine \<Rightarrow> objref \<Rightarrow> jsval \<Rightarrow> error + jsval" where
  "get_ref E r key =
     (case r of
        Plain obj \<Rightarrow> get_prop E obj key
      | Host n \<Rightarrow> and_then (to_string E key) (\<lambda>k. host_member E n k))"

text \<open>
  The values of the data model of the specification: numbers and strings, and with
  them \<^verbatim>\<open>null\<close>, booleans and an absent property. Their conversion to a string cannot
  throw.
\<close>

definition primitive :: "jsval \<Rightarrow> bool" where
  "primitive v = (case v of JArr xs \<Rightarrow> False | JObj ps \<Rightarrow> False | JHost n \<Rightarrow> False | _ \<Rightarrow> True)"

section \<open>The rule engine\<close>

subsection \<open>Data\<close>

text \<open>
  A transaction and a feature vector are parsed objects read by a computed property
  name. A condition and a rule are read by fixed property names, so they are records; a
  property the JSON leaves out is \<open>JUndefined\<close>. A transaction, a feature vector, a rule
  and a condition are objects, and a rule has an array of conditions, as in the three
  JSON files.
\<close>

record condition =
  field :: jsval
  source :: jsval
  op :: jsval
  "value" :: jsval

record rule =
  rule_id :: jsval
  name :: jsval
  severity :: jsval
  action :: jsval
  conditions :: "condition list"

text \<open>The object \<^verbatim>\<open>checkOneCondition\<close> returns.\<close>

record conditionResult =
  field :: jsval
  op :: jsval
  "value" :: jsval
  actual :: jsval
  pass :: bool
  source :: jsval

text \<open>The object \<^verbatim>\<open>checkOneRule\<close> returns.\<close>

record ruleResult =
  pass :: bool
  results :: "conditionResult list"

text \<open>An element of the array \<^verbatim>\<open>checkAllRules\<close> returns.\<close>

record ruleEvaluation =
  rule :: rule
  pass :: bool
  results :: "conditionResult list"

text \<open>
  The global variables of app.js. \<open>featureVectors\<close> holds the own properties of the
  object of that name, which \<^verbatim>\<open>loadData\<close> fills with one feature vector per id.
\<close>

record globals =
  selectedRule :: "rule option"
  selectedTx :: "object option"
  filterMode :: string
  stepIndex :: int
  transactions :: "object list"
  featureVectors :: "string \<Rightarrow> object option"
  rules :: "rule list"

subsection \<open>\<^verbatim>\<open>checkOneCondition\<close>\<close>

text \<open>
  Lines 63 to 73: the value to check. \<open>None\<close> is a feature vector that is
  \<^verbatim>\<open>undefined\<close>; the variable then keeps its initial \<^verbatim>\<open>null\<close>. An object, parsed or
  built-in, is truthy.
\<close>

definition actualValue :: "engine \<Rightarrow> condition \<Rightarrow> object \<Rightarrow> objref option \<Rightarrow> error + jsval" where
  "actualValue E c transaction featureVector =
     (if condition.source c = JStr ''raw'' then get_prop E transaction (condition.field c)
      else (case featureVector of
              Some fv \<Rightarrow> get_ref E fv (condition.field c)
            | None \<Rightarrow> Inr JNull))"

text \<open>
  Lines 75 to 115. Both calls of \<^verbatim>\<open>parseFloat\<close> run before the operator is looked at,
  so a value that cannot be converted to a string throws under every operator.
\<close>

definition checkOneCondition ::
  "engine \<Rightarrow> condition \<Rightarrow> object \<Rightarrow> objref option \<Rightarrow> error + conditionResult" where
  "checkOneCondition E c transaction featureVector =
     and_then (actualValue E c transaction featureVector) (\<lambda>a.
       if a = JNull \<or> a = JUndefined then
         Inr \<lparr>conditionResult.field = condition.field c, op = condition.op c,
              value = condition.value c, actual = JStr ''NOT FOUND'', pass = False,
              source = condition.source c\<rparr>
       else
         and_then (parseFloat E a) (\<lambda>actualNumber.
         and_then (parseFloat E (condition.value c)) (\<lambda>conditionNumber.
         and_then
           (if condition.op c = JStr ''=='' then
              and_then (to_string E a) (\<lambda>sa.
              and_then (to_string E (condition.value c)) (\<lambda>sv. Inr (sa = sv)))
            else if condition.op c = JStr ''!='' then
              and_then (to_string E a) (\<lambda>sa.
              and_then (to_string E (condition.value c)) (\<lambda>sv. Inr (sa \<noteq> sv)))
            else if condition.op c = JStr ''>'' then
              Inr (num_gt actualNumber conditionNumber)
            else if condition.op c = JStr ''<'' then
              Inr (num_lt actualNumber conditionNumber)
            else if condition.op c = JStr ''>='' then
              Inr (num_ge actualNumber conditionNumber)
            else if condition.op c = JStr ''<='' then
              Inr (num_le actualNumber conditionNumber)
            else if condition.op c = JStr ''contains'' then
              and_then (to_string E a) (\<lambda>sa.
              and_then (to_string E (condition.value c)) (\<lambda>sv.
                Inr (includes_str (toLowerCase sa) (toLowerCase sv))))
            else if condition.op c = JStr ''out_of_hours'' then
              Inr (num_ge actualNumber (Fin 22) \<or> num_le actualNumber (Fin 5))
            else Inr False)
           (\<lambda>p. Inr \<lparr>conditionResult.field = condition.field c, op = condition.op c,
                     value = condition.value c, actual = a, pass = p,
                     source = condition.source c\<rparr>))))"

subsection \<open>\<^verbatim>\<open>checkOneRule\<close> and \<^verbatim>\<open>checkAllRules\<close>\<close>

text \<open>
  Line 121, \<^verbatim>\<open>featureVectors[transaction.transaction_id]\<close>: the id is read from the
  transaction and converted to a property name; the object \<^verbatim>\<open>featureVectors\<close> answers
  with its own property of that name, else with the member of \<^verbatim>\<open>Object.prototype\<close> of
  that name, else with \<^verbatim>\<open>undefined\<close>.
\<close>

definition lookup_featureVector :: "engine \<Rightarrow> globals \<Rightarrow> object \<Rightarrow> error + objref option" where
  "lookup_featureVector E g transaction =
     and_then (get_prop E transaction (JStr ''transaction_id'')) (\<lambda>id.
     and_then (to_string E id) (\<lambda>k.
       Inr (case featureVectors g k of
              Some fv \<Rightarrow> Some (Plain fv)
            | None \<Rightarrow> (case proto_member E k of Some n \<Rightarrow> Some (Host n) | None \<Rightarrow> None))))"

text \<open>
  Both functions read the global variables and assign to none of them: they take the
  globals and return them with the result. The first loop of \<^verbatim>\<open>checkOneRule\<close> pushes
  one result per condition and ends when a condition throws; the second looks for a
  result whose \<^verbatim>\<open>pass\<close> is false and stops at the first.
\<close>

fun conditions_loop ::
  "engine \<Rightarrow> condition list \<Rightarrow> object \<Rightarrow> objref option \<Rightarrow> conditionResult list
     \<Rightarrow> error + conditionResult list" where
  "conditions_loop E [] transaction featureVector conditionResults = Inr conditionResults"
| "conditions_loop E (c # cs) transaction featureVector conditionResults =
     and_then (checkOneCondition E c transaction featureVector) (\<lambda>result.
       conditions_loop E cs transaction featureVector (conditionResults @ [result]))"

fun allPassed_loop :: "conditionResult list \<Rightarrow> bool" where
  "allPassed_loop [] = True"
| "allPassed_loop (r # rs) = (if conditionResult.pass r = False then False else allPassed_loop rs)"

definition checkOneRule :: "engine \<Rightarrow> rule \<Rightarrow> object \<Rightarrow> globals \<Rightarrow> error + ruleResult \<times> globals" where
  "checkOneRule E r transaction g =
     and_then (lookup_featureVector E g transaction) (\<lambda>featureVector.
     and_then (conditions_loop E (conditions r) transaction featureVector []) (\<lambda>conditionResults.
       Inr (\<lparr>ruleResult.pass = allPassed_loop conditionResults,
              ruleResult.results = conditionResults\<rparr>, g)))"

fun rules_loop ::
  "engine \<Rightarrow> rule list \<Rightarrow> object \<Rightarrow> ruleEvaluation list \<Rightarrow> globals
     \<Rightarrow> error + ruleEvaluation list \<times> globals" where
  "rules_loop E [] transaction allResults g = Inr (allResults, g)"
| "rules_loop E (r # rs) transaction allResults g =
     and_then (checkOneRule E r transaction g) (\<lambda>(result, g').
       rules_loop E rs transaction
         (allResults @ [\<lparr>rule = r, pass = ruleResult.pass result,
                          results = ruleResult.results result\<rparr>]) g')"

definition checkAllRules :: "engine \<Rightarrow> object \<Rightarrow> globals \<Rightarrow> error + ruleEvaluation list \<times> globals" where
  "checkAllRules E transaction g = rules_loop E (rules g) transaction [] g"

subsection \<open>Hit counts and hit percentages\<close>

text \<open>
  \<^verbatim>\<open>renderRules\<close> (lines 180 to 189) counts, for one rule, the transactions it fires
  on; \<^verbatim>\<open>renderStats\<close> (lines 714 to 723) collects them. Both compute
  \<^verbatim>\<open>Math.round((count / transactions.length) * 100)\<close>. A count and an array length are
  integers below \<open>2 ^ 32\<close>, which a double holds exactly.
\<close>

fun hitCount_loop :: "engine \<Rightarrow> rule \<Rightarrow> object list \<Rightarrow> nat \<Rightarrow> globals \<Rightarrow> error + nat \<times> globals" where
  "hitCount_loop E r [] hitCount g = Inr (hitCount, g)"
| "hitCount_loop E r (tx # txs) hitCount g =
     and_then (checkOneRule E r tx g) (\<lambda>(result, g').
       hitCount_loop E r txs (if ruleResult.pass result = True then hitCount + 1 else hitCount) g')"

fun flagged_loop ::
  "engine \<Rightarrow> rule \<Rightarrow> object list \<Rightarrow> object list \<Rightarrow> globals \<Rightarrow> error + object list \<times> globals" where
  "flagged_loop E r [] flaggedTransactions g = Inr (flaggedTransactions, g)"
| "flagged_loop E r (tx # txs) flaggedTransactions g =
     and_then (checkOneRule E r tx g) (\<lambda>(result, g').
       flagged_loop E r txs
         (if ruleResult.pass result = True then flaggedTransactions @ [tx]
          else flaggedTransactions) g')"

definition hitPercent :: "nat \<Rightarrow> nat \<Rightarrow> jsnum" where
  "hitPercent hitCount len =
     Math_round (num_mul (num_div (Fin (real hitCount)) (Fin (real len))) (Fin 100))"

definition renderRules_hitCount :: "engine \<Rightarrow> rule \<Rightarrow> globals \<Rightarrow> error + nat" where
  "renderRules_hitCount E r g =
     and_then (hitCount_loop E r (transactions g) 0 g) (\<lambda>(hitCount, g'). Inr hitCount)"

definition renderRules_hitPercent :: "engine \<Rightarrow> rule \<Rightarrow> globals \<Rightarrow> error + jsnum" where
  "renderRules_hitPercent E r g =
     and_then (hitCount_loop E r (transactions g) 0 g) (\<lambda>(hitCount, g').
       Inr (hitPercent hitCount (length (transactions g'))))"

definition renderStats_hitPercent :: "engine \<Rightarrow> rule \<Rightarrow> globals \<Rightarrow> error + jsnum" where
  "renderStats_hitPercent E r g =
     and_then (flagged_loop E r (transactions g) [] g) (\<lambda>(flaggedTransactions, g').
       Inr (hitPercent (length flaggedTransactions) (length (transactions g'))))"

text \<open>
  The hit percentage in the words of the specification,
  \<^verbatim>\<open>round(100 * passCount / totalCount)\<close>, over the reals, \<^verbatim>\<open>round\<close> being the nearest
  integer and, as \<^verbatim>\<open>Math.round\<close>, the larger one of two equally near.
\<close>

definition spec_hitPercent :: "nat \<Rightarrow> nat \<Rightarrow> int" where
  "spec_hitPercent passCount totalCount = \<lfloor>100 * real passCount / real totalCount + 1 / 2\<rfloor>"

text \<open>
  Whether a rule fires on a transaction: \<^verbatim>\<open>checkOneRule(rule, tx).pass\<close>, as the two loops
  above test it.
\<close>

definition fires :: "engine \<Rightarrow> rule \<Rightarrow> globals \<Rightarrow> object \<Rightarrow> bool" where
  "fires E r g tx =
     (case checkOneRule E r tx g of Inl e \<Rightarrow> False | Inr (res, g') \<Rightarrow> ruleResult.pass res)"

subsection \<open>\<^verbatim>\<open>checkOneRule\<close> on a store\<close>

text \<open>
  To state what \<^verbatim>\<open>checkOneRule\<close> writes, the same function once more with its objects
  in a store. A rule (with its conditions) and a parsed object each fill one cell, and
  the global \<^verbatim>\<open>featureVectors\<close> maps an id to the address of a feature vector. The
  arguments \<^verbatim>\<open>rule\<close> and \<^verbatim>\<open>transaction\<close> are addresses, and so is the variable
  \<^verbatim>\<open>featureVector\<close> unless it is \<^verbatim>\<open>undefined\<close> or a built-in object. The array
  \<^verbatim>\<open>conditionResults\<close> is a new cell that every \<^verbatim>\<open>push\<close> writes to, and the object
  returned is a new cell with \<^verbatim>\<open>pass\<close> and the address of the array. The results are the
  objects \<^verbatim>\<open>checkOneCondition\<close> makes; only the array refers to them and its cell holds
  them by value. A read finds a cell of the kind it expects in every store that
  \<^verbatim>\<open>loadData\<close> can make; where it does not, the function ends with an error.
\<close>

type_synonym addr = nat

datatype cell =
    RuleCell rule
  | ObjectCell object
  | ResultsCell "conditionResult list"
  | RuleResultCell bool addr

record store =
  cells :: "addr \<Rightarrow> cell option"
  fresh :: addr
  featureVectors_at :: "string \<Rightarrow> addr option"

datatype ref = At addr | Builtin string

definition read_rule :: "store \<Rightarrow> addr \<Rightarrow> error + rule" where
  "read_rule s a = (case cells s a of Some (RuleCell r) \<Rightarrow> Inr r | _ \<Rightarrow> Inl TypeError)"

definition read_object :: "store \<Rightarrow> addr \<Rightarrow> error + object" where
  "read_object s a = (case cells s a of Some (ObjectCell obj) \<Rightarrow> Inr obj | _ \<Rightarrow> Inl TypeError)"

definition read_results :: "store \<Rightarrow> addr \<Rightarrow> error + conditionResult list" where
  "read_results s a = (case cells s a of Some (ResultsCell rs) \<Rightarrow> Inr rs | _ \<Rightarrow> Inl TypeError)"

definition deref :: "store \<Rightarrow> ref option \<Rightarrow> error + objref option" where
  "deref s featureVector =
     (case featureVector of
        None \<Rightarrow> Inr None
      | Some (Builtin n) \<Rightarrow> Inr (Some (Host n))
      | Some (At a) \<Rightarrow> and_then (read_object s a) (\<lambda>fv. Inr (Some (Plain fv))))"

definition alloc :: "cell \<Rightarrow> store \<Rightarrow> addr \<times> store" where
  "alloc c s = (fresh s, s\<lparr>cells := (cells s)(fresh s \<mapsto> c), fresh := Suc (fresh s)\<rparr>)"

definition push_result :: "addr \<Rightarrow> conditionResult \<Rightarrow> store \<Rightarrow> error + store" where
  "push_result a r s =
     and_then (read_results s a) (\<lambda>rs. Inr (s\<lparr>cells := (cells s)(a \<mapsto> ResultsCell (rs @ [r]))\<rparr>))"

text \<open>Line 121.\<close>

definition lookup_featureVector_in :: "engine \<Rightarrow> addr \<Rightarrow> store \<Rightarrow> error + ref option" where
  "lookup_featureVector_in E transaction s =
     and_then (read_object s transaction) (\<lambda>tx.
     and_then (get_prop E tx (JStr ''transaction_id'')) (\<lambda>id.
     and_then (to_string E id) (\<lambda>k.
       Inr (case featureVectors_at s k of
              Some a \<Rightarrow> Some (At a)
            | None \<Rightarrow> (case proto_member E k of Some n \<Rightarrow> Some (Builtin n) | None \<Rightarrow> None)))))"

text \<open>
  \<^verbatim>\<open>checkOneCondition\<close> reads the transaction and the feature vector, and writes to
  neither: it has no assignment to a property and calls \<^verbatim>\<open>parseFloat\<close>, \<^verbatim>\<open>String\<close>,
  \<^verbatim>\<open>toLowerCase\<close> and \<^verbatim>\<open>includes\<close> only, none of which writes to a parsed object.
\<close>

definition checkOneCondition_in ::
  "engine \<Rightarrow> condition \<Rightarrow> addr \<Rightarrow> ref option \<Rightarrow> store \<Rightarrow> error + conditionResult" where
  "checkOneCondition_in E c transaction featureVector s =
     and_then (read_object s transaction) (\<lambda>tx.
     and_then (deref s featureVector) (\<lambda>fv. checkOneCondition E c tx fv))"

text \<open>
  Lines 126 to 130. Every turn of the loop reads \<^verbatim>\<open>rule.conditions.length\<close> and
  \<^verbatim>\<open>rule.conditions[i]\<close> from the store, so the loop is bounded by a number of turns:
  \<open>None\<close> is a loop that has not ended within them.
\<close>

fun conditions_loop_in ::
  "nat \<Rightarrow> engine \<Rightarrow> addr \<Rightarrow> addr \<Rightarrow> ref option \<Rightarrow> addr \<Rightarrow> nat \<Rightarrow> store
     \<Rightarrow> (error + store) option" where
  "conditions_loop_in 0 E rule_at transaction featureVector conditionResults i s = None"
| "conditions_loop_in (Suc turns) E rule_at transaction featureVector conditionResults i s =
     (case read_rule s rule_at of
        Inl e \<Rightarrow> Some (Inl e)
      | Inr r \<Rightarrow>
          if i < length (conditions r) then
            (case and_then (checkOneCondition_in E (conditions r ! i) transaction featureVector s)
                    (\<lambda>result. push_result conditionResults result s) of
               Inl e \<Rightarrow> Some (Inl e)
             | Inr s' \<Rightarrow>
                 conditions_loop_in turns E rule_at transaction featureVector conditionResults (i + 1) s')
          else Some (Inr s))"

text \<open>Lines 119 to 145; the second loop reads the array the first has filled.\<close>

definition checkOneRule_in ::
  "nat \<Rightarrow> engine \<Rightarrow> addr \<Rightarrow> addr \<Rightarrow> store \<Rightarrow> (error + addr \<times> store) option" where
  "checkOneRule_in turns E rule_at transaction s =
     (case lookup_featureVector_in E transaction s of
        Inl e \<Rightarrow> Some (Inl e)
      | Inr featureVector \<Rightarrow>
          (case alloc (ResultsCell []) s of
             (conditionResults, s1) \<Rightarrow>
               (case conditions_loop_in turns E rule_at transaction featureVector conditionResults 0 s1 of
                  None \<Rightarrow> None
                | Some (Inl e) \<Rightarrow> Some (Inl e)
                | Some (Inr s2) \<Rightarrow>
                    Some (and_then (read_results s2 conditionResults) (\<lambda>rs.
                      Inr (alloc (RuleResultCell (allPassed_loop rs) conditionResults) s2))))))"

text \<open>
  A store as \<^verbatim>\<open>loadData\<close> leaves it: every cell in use lies below \<open>fresh\<close>, and
  \<^verbatim>\<open>featureVectors\<close> refers to parsed objects. \<open>featureVectors_of\<close> is the content of the
  global variable \<^verbatim>\<open>featureVectors\<close> in such a store.
\<close>

definition wf_store :: "store \<Rightarrow> bool" where
  "wf_store s \<longleftrightarrow>
     (\<forall>a. cells s a \<noteq> None \<longrightarrow> a < fresh s) \<and>
     (\<forall>k a. featureVectors_at s k = Some a \<longrightarrow> (\<exists>fv. cells s a = Some (ObjectCell fv)))"

definition featureVectors_of :: "store \<Rightarrow> string \<Rightarrow> object option" where
  "featureVectors_of s k =
     (case featureVectors_at s k of
        Some a \<Rightarrow> (case cells s a of Some (ObjectCell fv) \<Rightarrow> Some fv | _ \<Rightarrow> None)
      | None \<Rightarrow> None)"

subsection \<open>Sample data\<close>

text \<open>
  An engine for the examples. Its \<^verbatim>\<open>Object.prototype\<close> has the members of ECMA-262
  (20.1.3 and B.2.2): \<^verbatim>\<open>constructor\<close> is the function \<^verbatim>\<open>Object\<close>, \<^verbatim>\<open>__proto__\<close> reads as
  \<^verbatim>\<open>Object.prototype\<close> itself, the others are functions of their own name. A function
  prints as in V8. Of the properties of a built-in function this engine knows \<^verbatim>\<open>name\<close>,
  and \<^verbatim>\<open>caller\<close> and \<^verbatim>\<open>arguments\<close>, whose read throws; it reads every other property as
  \<^verbatim>\<open>undefined\<close>, which a browser does not (\<^verbatim>\<open>length\<close>, \<^verbatim>\<open>call\<close>, ...). The general
  theorems are stated for every engine, and no example reads a property of a built-in
  object.
\<close>

definition object_prototype_names :: "string list" where
  "object_prototype_names =
     [''constructor'', ''hasOwnProperty'', ''isPrototypeOf'', ''propertyIsEnumerable'',
      ''toLocaleString'', ''toString'', ''valueOf'', ''__proto__'', ''__defineGetter__'',
      ''__defineSetter__'', ''__lookupGetter__'', ''__lookupSetter__'']"

definition engine_sample :: engine where
  "engine_sample =
     \<lparr>proto_member = (\<lambda>k. if k = ''constructor'' then Some ''Object''
                          else if k = ''__proto__'' then Some ''Object.prototype''
                          else if k \<in> set object_prototype_names then Some k else None),
      host_member = (\<lambda>n k. if n = ''Object.prototype'' then Inr JUndefined
                            else if k = ''caller'' \<or> k = ''arguments'' then Inl TypeError
                            else if k = ''name'' then Inr (JStr n) else Inr JUndefined),
      host_string = (\<lambda>n. if n = ''Object.prototype'' then Inr ''[object Object]''
                          else Inr (''function '' @ n @ ''() { [native code] }''))\<rparr>"

text \<open>
  Two transactions, the feature vector of the first, and two rules, in the shape of the
  three JSON files; the second transaction has no feature vector.
\<close>

definition tx_T1 :: object where
  "tx_T1 = [(''transaction_id'', JStr ''T1''), (''amount'', JNum (Fin 1500)),
            (''currency'', JStr ''USD''), (''hour'', JNum (Fin 23))]"

definition tx_T2 :: object where
  "tx_T2 = [(''transaction_id'', JStr ''T2''), (''amount'', JNum (Fin 500)),
            (''currency'', JStr ''USD''), (''hour'', JNum (Fin 12))]"

definition fv_T1 :: object where
  "fv_T1 = [(''transaction_id'', JStr ''T1''), (''velocity'', JNum (Fin 7))]"

definition cond_amount :: condition where
  "cond_amount = \<lparr>condition.field = JStr ''amount'', condition.source = JStr ''raw'',
     condition.op = JStr ''>'', condition.value = JStr ''1000''\<rparr>"

definition cond_currency :: condition where
  "cond_currency = \<lparr>condition.field = JStr ''currency'', condition.source = JStr ''raw'',
     condition.op = JStr ''=='', condition.value = JStr ''EUR''\<rparr>"

definition cond_velocity :: condition where
  "cond_velocity = \<lparr>condition.field = JStr ''velocity'', condition.source = JStr ''derived'',
     condition.op = JStr ''>='', condition.value = JNum (Fin 5)\<rparr>"

definition rule_R1 :: rule where
  "rule_R1 = \<lparr>rule_id = JStr ''R1'', name = JStr ''Large foreign burst'', severity = JStr ''High'',
     action = JStr ''REVIEW'', conditions = [cond_amount, cond_currency, cond_velocity]\<rparr>"

definition rule_R2 :: rule where
  "rule_R2 = \<lparr>rule_id = JStr ''R2'', name = JStr ''Large amount'', severity = JStr ''Low'',
     action = JStr ''FLAG'', conditions = [cond_amount]\<rparr>"

definition globals_G1 :: globals where
  "globals_G1 = \<lparr>selectedRule = None, selectedTx = None, filterMode = ''all'', stepIndex = - 1,
     transactions = [tx_T1, tx_T2], featureVectors = [''T1'' \<mapsto> fv_T1], rules = [rule_R1, rule_R2]\<rparr>"

text \<open>
  A condition on the raw property \<^verbatim>\<open>field\<close> with a given operator and value, and a
  transaction that has only this property; a transaction whose amount is \<^verbatim>\<open>null\<close>.
\<close>

definition cond_on_field :: "string \<Rightarrow> jsval \<Rightarrow> condition" where
  "cond_on_field oper v = \<lparr>condition.field = JStr ''field'', condition.source = JStr ''raw'',
     condition.op = JStr oper, condition.value = v\<rparr>"

definition tx_field :: "jsval \<Rightarrow> object" where
  "tx_field v = [(''field'', v)]"

definition tx_T3 :: object where
  "tx_T3 = [(''transaction_id'', JStr ''T3''), (''amount'', JNull)]"

text \<open>
  Forty transactions, copies of the two above, of which the rule on the amount fires on
  twenty-three.
\<close>

definition globals_G40 :: globals where
  "globals_G40 = globals_G1\<lparr>transactions := replicate 23 tx_T1 @ replicate 17 tx_T2\<rparr>"

text \<open>
  A condition on a raw field that no transaction has, but \<^verbatim>\<open>Object.prototype\<close> has; and
  the value of \<^verbatim>\<open>JSON.parse('{"toString":1}')\<close>, which cannot be converted to a string.
\<close>

definition cond_constructor :: condition where
  "cond_constructor = \<lparr>condition.field = JStr ''constructor'', condition.source = JStr ''raw'',
     condition.op = JStr ''contains'', condition.value = JStr ''function''\<rparr>"

definition own_toString :: jsval where
  "own_toString = JObj [(''toString'', JNum (Fin 1))]"

text \<open>
  A store with the first rule in cell 0, the first transaction in cell 1 and its
  feature vector in cell 2.
\<close>

definition store_S1 :: store where
  "store_S1 = \<lparr>cells = [0 \<mapsto> RuleCell rule_R1, 1 \<mapsto> ObjectCell tx_T1, 2 \<mapsto> ObjectCell fv_T1],
     fresh = 3, featureVectors_at = [''T1'' \<mapsto> 2]\<rparr>"

section \<open>Running the built-ins on numerals\<close>

text \<open>
  Equations that let the simplifier run the recursive definitions on numerals only, so
  that it does not unfold them on a variable.
\<close>

lemma floorlog_numeral:
  "floorlog b (numeral k) = (if 1 < b then floorlog b (numeral k div b) + 1 else 0)"
  by (subst compute_floorlog) simp

lemma floorlog_small: "floorlog b 0 = 0" "floorlog b (Suc 0) = (if 1 < b then 1 else 0)"
  by (simp_all add: compute_floorlog)

lemma digits_of_nat_numeral:
  "digits_of_nat (numeral k) =
     (if (numeral k :: nat) < 10 then [digit_char (numeral k)]
      else digits_of_nat (numeral k div 10) @ [digit_char (numeral k mod 10)])"
  by (subst digits_of_nat.simps) simp

lemma digits_of_nat_small: "digits_of_nat 0 = ''0''" "digits_of_nat (Suc 0) = ''1''"
  by (simp_all add: digits_of_nat.simps digit_char_def)

lemma replicate_numeral_char:
  "replicate (numeral k) (c :: char) = c # replicate (pred_numeral k) c"
  by (simp add: numeral_eq_Suc)

lemma shortest_digits_numeral:
  "shortest_digits x n k (numeral f) =
     (case nearest_candidate x k (digit_candidates x n k) of
        Some (s, m) \<Rightarrow> (k, s, m)
      | None \<Rightarrow> shortest_digits x n (k + 1) (pred_numeral f))"
  by (simp add: numeral_eq_Suc)

lemmas num_eval = to_double_def double_of_pos_def ilog2_def ilog10_def floorlog_numeral floorlog_small
  pow2_def pow10_def round_half_even_def Let_def num_neg_def

lemmas str_eval = is_digit_def digit_val_def digit_char_def is_space_def starts_with_def digits_value_def
  digits_of_nat_numeral digits_of_nat_small replicate_numeral_char

lemmas fmt_eval = number_to_string_def pos_to_string_def format_digits_def digit_candidates_def
  nearest_candidate_def shortest_digits_numeral

lemmas parse_eval = parse_float_string_def unsigned_decimal_def exponent_part_def

lemmas cmp_eval = num_gt_def num_lt_def num_ge_def num_le_def

lemma number_to_string_small:
  "number_to_string (Fin 1) = ''1''" "number_to_string (Fin 2) = ''2''"
  "number_to_string (Fin 5) = ''5''" "number_to_string (Fin 7) = ''7''"
  by (simp_all add: fmt_eval num_eval str_eval)

lemma number_to_string_hours:
  "number_to_string (Fin 10) = ''10''" "number_to_string (Fin 12) = ''12''"
  "number_to_string (Fin 23) = ''23''"
  by (simp_all add: fmt_eval num_eval str_eval)

lemma number_to_string_amounts:
  "number_to_string (Fin 500) = ''500''" "number_to_string (Fin 1500) = ''1500''"
  by (simp_all add: fmt_eval num_eval str_eval)

lemma number_to_string_fraction:
  "number_to_string (Fin (- 5 / 2)) = ''-2.5''" "number_to_string (Fin (1 / 8)) = ''0.125''"
  by (simp_all add: fmt_eval num_eval str_eval)

lemma parse_float_string_integers:
  "parse_float_string ''5'' = Fin 5" "parse_float_string ''7'' = Fin 7"
  "parse_float_string ''10'' = Fin 10" "parse_float_string ''12'' = Fin 12"
  "parse_float_string ''23'' = Fin 23" "parse_float_string ''500'' = Fin 500"
  "parse_float_string ''1000'' = Fin 1000" "parse_float_string ''1500'' = Fin 1500"
  by (simp_all add: parse_eval num_eval str_eval)

lemma parse_float_string_forms:
  "parse_float_string ''1.5e3'' = Fin 1500" "parse_float_string ''15E+2xyz'' = Fin 1500"
  "parse_float_string ''  -2.5'' = Fin (- 5 / 2)" "parse_float_string ''.5'' = Fin (1 / 2)"
  "parse_float_string ''5e-1'' = Fin (1 / 2)" "parse_float_string ''Infinity'' = PosInf"
  "parse_float_string ''-Infinity'' = NegInf"
  by (simp_all add: parse_eval num_eval str_eval)

lemma parse_float_string_NaN:
  "parse_float_string ''abc'' = NaN" "parse_float_string '''' = NaN"
  "parse_float_string ''USD'' = NaN" "parse_float_string ''anything'' = NaN"
  "parse_float_string ''function Object() { [native code] }'' = NaN"
  by (simp_all add: parse_eval num_eval str_eval)

lemma hitPercent_23_40: "hitPercent 23 40 = Fin 57"
  by (simp add: hitPercent_def num_div_def num_mul_def Math_round_def num_eval)

lemma hitPercent_0_4: "hitPercent 0 4 = Fin 0"
  by (simp add: hitPercent_def num_div_def num_mul_def Math_round_def num_eval)

lemma hitPercent_4_4: "hitPercent 4 4 = Fin 100"
  by (simp add: hitPercent_def num_div_def num_mul_def Math_round_def num_eval)

lemma hitPercent_0_0: "hitPercent 0 0 = NaN"
  by (simp add: hitPercent_def num_div_def num_mul_def Math_round_def)

lemma hitPercent_1_8: "hitPercent 1 8 = Fin 13"
  by (simp add: hitPercent_def num_div_def num_mul_def Math_round_def num_eval)

section \<open>The error of rounding to a double\<close>

text \<open>
  In the normal range \<open>to_double\<close> changes a number by at most the fraction \<open>2 ^ -53\<close>
  of it. The hit percentage is a quotient and a product, each rounded, so it is within
  \<open>300 / 2 ^ 53\<close> of \<open>100 * h / t\<close> before \<^verbatim>\<open>Math.round\<close>; for fewer than \<open>2 ^ 32\<close>
  transactions that is too little to move it across a rounding boundary that it is not
  exactly on.
\<close>

lemma pow2_nat: "pow2 (int k) = 2 ^ k"
  by (simp add: pow2_def)

lemma pow2_neg_nat: "pow2 (- int k) = 1 / 2 ^ k"
  by (simp add: pow2_def)

lemma pow2_powr: "pow2 e = 2 powr (real_of_int e)"
proof (cases "0 \<le> e")
  case True
  then show ?thesis
    by (simp add: pow2_def powr_realpow [symmetric])
next
  case False
  then have "2 powr (real_of_int e) = 2 powr (- real (nat (- e)))"
    by simp
  also have "\<dots> = 1 / 2 powr real (nat (- e))"
    by (rule powr_minus_divide)
  also have "\<dots> = 1 / 2 ^ nat (- e)"
    by (simp add: powr_realpow)
  finally show ?thesis
    using False by (simp add: pow2_def)
qed

lemma pow2_pos: "0 < pow2 e"
  by (simp add: pow2_powr)

lemma pow2_add: "pow2 (a + b) = pow2 a * pow2 b"
  by (simp add: pow2_powr powr_add)

lemma pow2_mono: "a \<le> b \<Longrightarrow> pow2 a \<le> pow2 b"
  by (simp add: pow2_powr)

lemma ilog2_bounds:
  assumes "0 < x"
  shows "pow2 (ilog2 x) \<le> x \<and> x < pow2 (ilog2 x + 1)"
proof (cases "1 \<le> x")
  case True
  define n where "n = nat \<lfloor>x\<rfloor>"
  have "0 < \<lfloor>x\<rfloor>"
    using True by simp
  then have n1: "0 < n" and rn: "real n = real_of_int \<lfloor>x\<rfloor>"
    by (simp_all add: n_def)
  have "real_of_int \<lfloor>x\<rfloor> \<le> x" "x < real_of_int \<lfloor>x\<rfloor> + 1"
    by linarith+
  with n1 rn have n: "0 < n" "real n \<le> x" "x < real n + 1"
    by simp_all
  from floorlog_bounds [of n 2] n(1)
  have b: "2 ^ (floorlog 2 n - 1) \<le> n" "n < 2 ^ floorlog 2 n"
    by simp_all
  have f: "0 < floorlog 2 n"
    using n(1) by (simp add: floorlog_def)
  have e: "ilog2 x = int (floorlog 2 n - 1)"
    using True f by (simp add: ilog2_def n_def)
  have e1: "ilog2 x + 1 = int (floorlog 2 n)"
    using e f by simp
  have "pow2 (ilog2 x) = 2 ^ (floorlog 2 n - 1)"
    unfolding e by (rule pow2_nat)
  also have "\<dots> \<le> real n"
  proof -
    have "real (2 ^ (floorlog 2 n - 1)) \<le> real n"
      using b(1) by (simp only: of_nat_le_iff)
    then show ?thesis
      by simp
  qed
  finally have lo: "pow2 (ilog2 x) \<le> x"
    using n(2) by simp
  have "Suc n \<le> 2 ^ floorlog 2 n"
    using b(2) by simp
  then have "real (Suc n) \<le> real (2 ^ floorlog 2 n)"
    by (simp only: of_nat_le_iff)
  then have "real n + 1 \<le> 2 ^ floorlog 2 n"
    by simp
  then have "x < 2 ^ floorlog 2 n"
    using n(3) by simp
  then have "x < pow2 (ilog2 x + 1)"
    unfolding e1 by (simp add: pow2_nat)
  with lo show ?thesis
    by simp
next
  case False
  define y where "y = 1 / x"
  have y: "1 < y"
    using assms False by (simp add: y_def)
  define c where "c = \<lceil>y\<rceil>"
  have "1 < \<lceil>y\<rceil>"
    using y by (simp add: less_ceiling_iff)
  moreover have "y \<le> real_of_int \<lceil>y\<rceil>" "real_of_int \<lceil>y\<rceil> - 1 < y"
    by linarith+
  ultimately have c: "2 \<le> c" "y \<le> real_of_int c" "real_of_int c - 1 < y"
    by (simp_all add: c_def)
  define n where "n = nat (c - 1)"
  have n: "0 < n" "real n = real_of_int c - 1"
    using c(1) by (simp_all add: n_def)
  from floorlog_bounds [of n 2] n(1)
  have b: "2 ^ (floorlog 2 n - 1) \<le> n" "n < 2 ^ floorlog 2 n"
    by simp_all
  have f: "0 < floorlog 2 n"
    using n(1) by (simp add: floorlog_def)
  have e: "ilog2 x = - int (floorlog 2 n)"
    using False by (simp add: ilog2_def n_def c_def y_def)
  have e1: "ilog2 x + 1 = - int (floorlog 2 n - 1)"
    using e f by simp
  have "Suc n \<le> 2 ^ floorlog 2 n"
    using b(2) by simp
  then have "real (Suc n) \<le> real (2 ^ floorlog 2 n)"
    by (simp only: of_nat_le_iff)
  then have "real n + 1 \<le> 2 ^ floorlog 2 n"
    by simp
  then have "y \<le> 2 ^ floorlog 2 n"
    using c(2) n(2) by linarith
  then have "1 / 2 ^ floorlog 2 n \<le> x"
    using assms by (simp add: y_def field_simps)
  then have lo: "pow2 (ilog2 x) \<le> x"
    unfolding e by (simp add: pow2_neg_nat)
  have "real (2 ^ (floorlog 2 n - 1)) \<le> real n"
    using b(1) by (simp only: of_nat_le_iff)
  then have "(2::real) ^ (floorlog 2 n - 1) \<le> real n"
    by simp
  then have "2 ^ (floorlog 2 n - 1) < y"
    using c(3) n(2) by linarith
  then have "x < 1 / 2 ^ (floorlog 2 n - 1)"
    using assms by (simp add: y_def field_simps)
  then have "x < pow2 (ilog2 x + 1)"
    unfolding e1 by (simp add: pow2_neg_nat)
  with lo show ?thesis
    by simp
qed

lemma round_half_even_err: "\<bar>real_of_int (round_half_even y) - y\<bar> \<le> 1 / 2"
proof -
  define f where "f = \<lfloor>y\<rfloor>"
  have b: "real_of_int f \<le> y" "y < real_of_int f + 1"
    unfolding f_def by linarith+
  have "round_half_even y =
      (if y - real_of_int f < 1 / 2 then f
       else if 1 / 2 < y - real_of_int f then f + 1 else if even f then f else f + 1)"
    by (simp add: round_half_even_def Let_def f_def)
  then show ?thesis
    using b by (auto simp add: abs_if)
qed

lemma to_double_rel_err:
  assumes lo: "pow2 (- 1022) \<le> x" and hi: "x < pow2 1023"
  shows "\<exists>y. to_double x = Fin y \<and> \<bar>y - x\<bar> \<le> x / 2 ^ 53"
proof -
  have x: "0 < x"
    using lo pow2_pos [of "- 1022"] by linarith
  define e where "e = ilog2 x"
  have eb: "pow2 e \<le> x" "x < pow2 (e + 1)"
    using ilog2_bounds [OF x] by (simp_all add: e_def)
  have "- 1022 \<le> e"
  proof (rule ccontr)
    assume "\<not> - 1022 \<le> e"
    then have "e + 1 \<le> - 1022"
      by simp
    then have "pow2 (e + 1) \<le> pow2 (- 1022)"
      by (rule pow2_mono)
    with eb(2) lo show False
      by linarith
  qed
  then have m: "max (ilog2 x) (- 1022) = e"
    by (simp add: e_def)
  define ulp where "ulp = pow2 (e - 52)"
  have up: "0 < ulp"
    by (simp add: ulp_def pow2_pos)
  have "pow2 e = pow2 (e - 52) * pow2 52"
    using pow2_add [of "e - 52" 52] by simp
  then have ue: "pow2 e = ulp * 2 ^ 52"
    by (simp add: ulp_def pow2_def)
  define k where "k = round_half_even (x / ulp)"
  define r where "r = real_of_int k * ulp"
  have "\<bar>real_of_int k - x / ulp\<bar> \<le> 1 / 2"
    unfolding k_def by (rule round_half_even_err)
  then have "\<bar>real_of_int k - x / ulp\<bar> * ulp \<le> 1 / 2 * ulp"
    using up by (simp only: mult_le_cancel_right_pos)
  moreover have "\<bar>real_of_int k - x / ulp\<bar> * ulp = \<bar>r - x\<bar>"
  proof -
    have "(real_of_int k - x / ulp) * ulp = r - x"
      using up by (simp add: r_def field_simps)
    then have "\<bar>r - x\<bar> = \<bar>real_of_int k - x / ulp\<bar> * \<bar>ulp\<bar>"
      by (simp only: abs_mult [symmetric])
    then show ?thesis
      using up by simp
  qed
  ultimately have err: "\<bar>r - x\<bar> \<le> ulp / 2"
    by simp
  have "ulp * 2 ^ 52 \<le> x"
    using eb(1) ue by simp
  then have "ulp / 2 \<le> x / 2 ^ 53"
    by simp
  with err have rel: "\<bar>r - x\<bar> \<le> x / 2 ^ 53"
    by linarith
  have "x / 2 ^ 53 \<le> x"
    using x by (simp add: field_simps)
  with rel have "r \<le> 2 * x"
    by linarith
  also have "\<dots> < 2 * pow2 1023"
    using hi by simp
  also have "\<dots> = pow2 1024"
    by (simp add: pow2_def)
  finally have "\<not> pow2 1024 \<le> r"
    by simp
  then have "to_double x = Fin r"
    using x by (simp add: to_double_def double_of_pos_def Let_def m r_def k_def ulp_def)
  with rel show ?thesis
    by blast
qed

lemma hitPercent_zero:
  assumes "0 < t"
  shows "hitPercent 0 t = Fin 0"
  using assms by (simp add: hitPercent_def num_div_def num_mul_def Math_round_def to_double_def)

lemma hitPercent_product:
  assumes h: "0 < h" "h \<le> t" and t: "t < 2 ^ 32"
  shows "\<exists>p. num_mul (num_div (Fin (real h)) (Fin (real t))) (Fin 100) = Fin p \<and>
             \<bar>p - 100 * real h / real t\<bar> \<le> 300 / 2 ^ 53"
proof -
  define q where "q = real h / real t"
  have tp: "0 < real t"
    using h by simp
  have q1: "q \<le> 1"
    using h tp by (simp add: q_def)
  have "real t < 2 ^ 32"
    using t by (metis of_nat_less_iff of_nat_numeral of_nat_power)
  moreover have "1 \<le> real h"
    using h by simp
  ultimately have "1 / 2 ^ 32 < 1 / real t" "1 / real t \<le> q"
    using tp by (simp_all add: q_def field_simps)
  then have q0: "1 / 2 ^ 32 < q"
    by linarith
  have "pow2 (- 1022) \<le> q"
    using q0 by (simp add: pow2_def)
  moreover have "q < pow2 1023"
    using q1 by (simp add: pow2_def)
  ultimately obtain q' where q': "to_double q = Fin q'" "\<bar>q' - q\<bar> \<le> q / 2 ^ 53"
    using to_double_rel_err by blast
  have d: "num_div (Fin (real h)) (Fin (real t)) = Fin q'"
    using tp q'(1) by (simp add: num_div_def q_def)
  have "(0::real) < 1 / 2 ^ 32"
    by simp
  with q0 have qp: "0 < q"
    by linarith
  then have "q / 2 ^ 53 \<le> q / 2"
    by (simp add: field_simps)
  with q'(2) qp have q'b: "q / 2 \<le> q'" "q' \<le> 2 * q"
    by linarith+
  define p0 where "p0 = q' * 100"
  have "1 / 2 ^ 33 \<le> p0"
    using q'b(1) q0 by (simp add: p0_def)
  moreover have "pow2 (- 1022) \<le> 1 / 2 ^ 33"
    by (simp add: pow2_def)
  ultimately have "pow2 (- 1022) \<le> p0"
    by linarith
  moreover have p0b: "p0 \<le> 200"
    using q'b(2) q1 by (simp add: p0_def)
  then have "p0 < pow2 1023"
    by (simp add: pow2_def)
  ultimately obtain p where p: "to_double p0 = Fin p" "\<bar>p - p0\<bar> \<le> p0 / 2 ^ 53"
    using to_double_rel_err by blast
  have m: "num_mul (num_div (Fin (real h)) (Fin (real t))) (Fin 100) = Fin p"
    using p(1) by (simp add: d num_mul_def p0_def)
  have "p0 / 2 ^ 53 \<le> 200 / 2 ^ 53"
    using p0b by (simp add: field_simps)
  with p(2) have e1: "\<bar>p - p0\<bar> \<le> 200 / 2 ^ 53"
    by linarith
  have "q / 2 ^ 53 \<le> 1 / 2 ^ 53"
    using q1 by (simp add: field_simps)
  with q'(2) have "\<bar>q' - q\<bar> \<le> 1 / 2 ^ 53"
    by linarith
  then have e2: "\<bar>p0 - 100 * q\<bar> \<le> 100 / 2 ^ 53"
    unfolding p0_def by linarith
  from e1 e2 have "\<bar>p - 100 * q\<bar> \<le> 300 / 2 ^ 53"
    by linarith
  with m show ?thesis
    by (auto simp add: q_def)
qed

lemma hitPercent_near_spec:
  assumes t: "0 < t" "t < 2 ^ 32" and h: "h \<le> t"
  shows "(frac (100 * real h / real t) \<noteq> 1 / 2 \<longrightarrow>
            hitPercent h t = Fin (of_int (spec_hitPercent h t))) \<and>
         (hitPercent h t = Fin (of_int (spec_hitPercent h t)) \<or>
          hitPercent h t = Fin (of_int (spec_hitPercent h t - 1)))"
proof (cases "h = 0")
  case True
  then show ?thesis
    using t(1) by (simp add: hitPercent_zero spec_hitPercent_def)
next
  case False
  then have "0 < h"
    by simp
  from hitPercent_product [OF this h t(2)]
  obtain p where p: "num_mul (num_div (Fin (real h)) (Fin (real t))) (Fin 100) = Fin p"
      "\<bar>p - 100 * real h / real t\<bar> \<le> 300 / 2 ^ 53"
    by blast
  define E where "E = 100 * real h / real t"
  define S where "S = spec_hitPercent h t"
  define N where "N = 200 * int h + int t"
  define D where "D = 2 * int t"
  define R where "R = N mod D"
  have Dp: "0 < D"
    using t(1) by (simp add: D_def)
  have ED: "E + 1 / 2 = real_of_int N / real_of_int D"
    using t(1) by (simp add: E_def N_def D_def field_simps)
  have SD: "S = N div D"
    unfolding S_def spec_hitPercent_def E_def [symmetric] ED by (rule floor_divide_of_int_eq)
  have R: "0 \<le> R" "R \<le> D - 1" "N = D * S + R"
    using Dp by (simp_all add: R_def SD)
  have "real_of_int N = real_of_int D * real_of_int S + real_of_int R"
    using R(3) by (metis of_int_add of_int_mult)
  then have ES: "E + 1 / 2 = real_of_int S + real_of_int R / real_of_int D"
    using Dp by (simp add: ED field_simps)
  have "real_of_int D < 2 ^ 33"
  proof -
    have "int t < 2 ^ 32"
      using t(2) by (metis of_nat_less_iff of_nat_numeral of_nat_power)
    then have "D < 2 ^ 33"
      by (simp add: D_def)
    then show ?thesis
      by (metis of_int_less_iff of_int_numeral of_int_power)
  qed
  then have "1 / 2 ^ 33 < 1 / real_of_int D"
    using Dp by (simp add: field_simps)
  then have eps: "300 / 2 ^ 53 < 1 / real_of_int D"
    by simp
  have "real_of_int R \<le> real_of_int D - 1"
    using R(2) by (metis of_int_1 of_int_diff of_int_le_iff)
  then have up: "real_of_int R / real_of_int D \<le> 1 - 1 / real_of_int D"
    using Dp by (simp add: field_simps)
  have lo: "0 \<le> real_of_int R / real_of_int D"
    using R(1) Dp by simp
  have pE: "\<bar>p - E\<bar> \<le> 300 / 2 ^ 53"
    using p(2) by (simp add: E_def)
  have hp: "hitPercent h t = Fin (of_int \<lfloor>p + 1 / 2\<rfloor>)"
    by (simp add: hitPercent_def p(1) Math_round_def)
  have below: "p + 1 / 2 < real_of_int S + 1"
    using pE ES up eps by linarith
  have "(300::real) / 2 ^ 53 < 1"
    by simp
  with pE ES lo have above: "real_of_int S - 1 < p + 1 / 2"
    by linarith
  have fl: "\<lfloor>p + 1 / 2\<rfloor> = S \<or> \<lfloor>p + 1 / 2\<rfloor> = S - 1"
  proof (cases "real_of_int S \<le> p + 1 / 2")
    case True
    with below have "\<lfloor>p + 1 / 2\<rfloor> = S"
      by (simp add: floor_unique)
    then show ?thesis
      by simp
  next
    case False
    with above have "\<lfloor>p + 1 / 2\<rfloor> = S - 1"
      by (simp add: floor_unique)
    then show ?thesis
      by simp
  qed
  have exact: "\<lfloor>p + 1 / 2\<rfloor> = S" if nt: "frac E \<noteq> 1 / 2"
  proof -
    have "R \<noteq> 0"
    proof
      assume "R = 0"
      with ES have e: "E = real_of_int (S - 1) + 1 / 2"
        by simp
      have "\<lfloor>real_of_int (S - 1) + 1 / 2 :: real\<rfloor> = S - 1"
        by (rule floor_unique) simp_all
      then have "\<lfloor>E\<rfloor> = S - 1"
        by (simp only: e)
      then have "frac E = E - real_of_int (S - 1)"
        by (simp only: frac_def)
      with e have "frac E = 1 / 2"
        by linarith
      with nt show False
        by simp
    qed
    with R(1) have "1 \<le> R"
      by simp
    then have "1 \<le> real_of_int R"
      by (metis of_int_1 of_int_le_iff)
    then have "1 / real_of_int D \<le> real_of_int R / real_of_int D"
      using Dp by (simp add: field_simps)
    with pE ES eps have "real_of_int S \<le> p + 1 / 2"
      by linarith
    with below show ?thesis
      by (simp add: floor_unique)
  qed
  show ?thesis
    using fl exact unfolding hp S_def [symmetric] E_def [symmetric] by auto
qed

section \<open>The ways \<^verbatim>\<open>checkOneCondition\<close> ends\<close>

lemma and_then_simps [simp]:
  "and_then (Inr x) f = f x" "and_then (Inl e) f = Inl e"
  by (simp_all add: and_then_def)

lemma and_then_Inr_iff:
  "and_then m f = Inr y \<longleftrightarrow> (\<exists>x. m = Inr x \<and> f x = Inr y)"
  by (cases m) simp_all

lemma and_then_Inl_iff:
  "and_then m f = Inl e \<longleftrightarrow> m = Inl e \<or> (\<exists>x. m = Inr x \<and> f x = Inl e)"
  by (cases m) simp_all

lemma to_string_primitive:
  assumes "primitive v"
  shows "\<exists>s. to_string E v = Inr s"
  using assms by (cases v) (simp_all add: primitive_def)

lemma to_string_own_toString: "to_string E own_toString = Inl TypeError"
  by (simp add: own_toString_def)

lemma parseFloat_eq:
  "parseFloat E v = (case to_string E v of Inl e \<Rightarrow> Inl e | Inr s \<Rightarrow> Inr (parse_float_string s))"
  by (simp add: parseFloat_def and_then_def)

text \<open>The three ways \<^verbatim>\<open>checkOneCondition\<close> ends.\<close>

lemma checkOneCondition_missing:
  assumes "actualValue E c tx fv = Inr a" and "a = JNull \<or> a = JUndefined"
  shows "checkOneCondition E c tx fv =
           Inr \<lparr>conditionResult.field = condition.field c, op = condition.op c,
                value = condition.value c, actual = JStr ''NOT FOUND'', pass = False,
                source = condition.source c\<rparr>"
  using assms by (auto simp add: checkOneCondition_def)

lemma checkOneCondition_present:
  assumes "actualValue E c tx fv = Inr a" and "a \<noteq> JNull" and "a \<noteq> JUndefined"
    and "to_string E a = Inr sa" and "to_string E (condition.value c) = Inr sv"
  shows "checkOneCondition E c tx fv =
    Inr \<lparr>conditionResult.field = condition.field c, op = condition.op c,
         value = condition.value c, actual = a,
         pass =
           (if condition.op c = JStr ''=='' then sa = sv
            else if condition.op c = JStr ''!='' then sa \<noteq> sv
            else if condition.op c = JStr ''>'' then
              num_gt (parse_float_string sa) (parse_float_string sv)
            else if condition.op c = JStr ''<'' then
              num_lt (parse_float_string sa) (parse_float_string sv)
            else if condition.op c = JStr ''>='' then
              num_ge (parse_float_string sa) (parse_float_string sv)
            else if condition.op c = JStr ''<='' then
              num_le (parse_float_string sa) (parse_float_string sv)
            else if condition.op c = JStr ''contains'' then
              includes_str (toLowerCase sa) (toLowerCase sv)
            else if condition.op c = JStr ''out_of_hours'' then
              num_ge (parse_float_string sa) (Fin 22) \<or> num_le (parse_float_string sa) (Fin 5)
            else False),
         source = condition.source c\<rparr>"
  using assms by (simp add: checkOneCondition_def parseFloat_def)

lemma checkOneCondition_throws:
  assumes "actualValue E c tx fv = Inr a" and "a \<noteq> JNull" and "a \<noteq> JUndefined"
    and "to_string E a = Inl e \<or> to_string E (condition.value c) = Inl e"
  shows "checkOneCondition E c tx fv = Inl TypeError"
proof -
  have e: "e = TypeError"
    by (cases e) simp
  show ?thesis
  proof (cases "to_string E a")
    case (Inl e')
    then show ?thesis
      using assms(1-3) by (cases e') (simp add: checkOneCondition_def parseFloat_def)
  next
    case (Inr sa)
    with assms(4) have "to_string E (condition.value c) = Inl TypeError"
      using e by simp
    with Inr show ?thesis
      using assms(1-3) by (simp add: checkOneCondition_def parseFloat_def)
  qed
qed

lemma checkOneCondition_lookup_throws:
  assumes "actualValue E c tx fv = Inl e"
  shows "checkOneCondition E c tx fv = Inl e"
  using assms by (simp add: checkOneCondition_def)

lemma checkOneCondition_cong:
  assumes "actualValue E c tx' fv' = actualValue E c tx fv"
  shows "checkOneCondition E c tx' fv' = checkOneCondition E c tx fv"
  using assms by (simp only: checkOneCondition_def)

lemma num_cmp_NaN:
  "\<not> num_gt NaN b" "\<not> num_gt a NaN" "\<not> num_lt NaN b" "\<not> num_lt a NaN"
  "\<not> num_ge NaN b" "\<not> num_ge a NaN" "\<not> num_le NaN b" "\<not> num_le a NaN"
  by (cases a; cases b; simp add: cmp_eval)+

lemma num_cmp_Fin:
  "num_gt (Fin x) (Fin y) \<longleftrightarrow> y < x" "num_lt (Fin x) (Fin y) \<longleftrightarrow> x < y"
  "num_ge (Fin x) (Fin y) \<longleftrightarrow> y \<le> x" "num_le (Fin x) (Fin y) \<longleftrightarrow> x \<le> y"
  by (auto simp add: cmp_eval)

section \<open>The two loops of \<^verbatim>\<open>checkOneRule\<close>\<close>

lemma conditions_loop_Inr:
  "conditions_loop E cs tx fv acc = Inr rs \<longleftrightarrow>
     (\<exists>rs'. rs = acc @ rs' \<and> list_all2 (\<lambda>c r. checkOneCondition E c tx fv = Inr r) cs rs')"
proof (induction cs arbitrary: acc)
  case Nil
  show ?case
    by auto
next
  case (Cons c cs)
  show ?case
  proof (cases "checkOneCondition E c tx fv")
    case (Inl e)
    then show ?thesis
      by (simp add: list_all2_Cons1)
  next
    case (Inr r)
    then show ?thesis
      by (auto simp add: Cons.IH list_all2_Cons1)
  qed
qed

lemma conditions_loop_Inl:
  "conditions_loop E cs tx fv acc = Inl e \<longleftrightarrow>
     (\<exists>c \<in> set cs. checkOneCondition E c tx fv = Inl e)"
proof (induction cs arbitrary: acc)
  case Nil
  show ?case
    by simp
next
  case (Cons c cs)
  show ?case
  proof (cases "checkOneCondition E c tx fv")
    case (Inl e')
    then show ?thesis
      by (cases e; cases e') simp
  next
    case (Inr r)
    then show ?thesis
      by (simp add: Cons.IH)
  qed
qed

lemma allPassed_loop_iff:
  "allPassed_loop rs \<longleftrightarrow> (\<forall>r \<in> set rs. conditionResult.pass r)"
  by (induction rs) simp_all

lemma checkOneRule_Inr:
  "checkOneRule E r tx g = Inr (res, g') \<longleftrightarrow>
     g' = g \<and>
     (\<exists>fv. lookup_featureVector E g tx = Inr fv \<and>
        list_all2 (\<lambda>c cr. checkOneCondition E c tx fv = Inr cr) (conditions r) (ruleResult.results res) \<and>
        ruleResult.pass res = allPassed_loop (ruleResult.results res))"
proof (cases "lookup_featureVector E g tx")
  case (Inl e)
  then show ?thesis
    by (simp add: checkOneRule_def)
next
  case (Inr fv)
  show ?thesis
  proof (cases "conditions_loop E (conditions r) tx fv []")
    case (Inl e)
    then have "\<not> list_all2 (\<lambda>c cr. checkOneCondition E c tx fv = Inr cr) (conditions r) rs" for rs
      using conditions_loop_Inr [of E "conditions r" tx fv "[]" rs] by simp
    with Inl Inr show ?thesis
      by (simp add: checkOneRule_def)
  next
    case loop: (Inr rs)
    have "list_all2 (\<lambda>c cr. checkOneCondition E c tx fv = Inr cr) (conditions r) rs' \<longleftrightarrow>
        conditions_loop E (conditions r) tx fv [] = Inr rs'" for rs'
      using conditions_loop_Inr [of E "conditions r" tx fv "[]" rs'] by simp
    then have "list_all2 (\<lambda>c cr. checkOneCondition E c tx fv = Inr cr) (conditions r) rs' \<longleftrightarrow>
        rs' = rs" for rs'
      by (auto simp add: loop)
    with loop Inr show ?thesis
      by (cases res) (auto simp add: checkOneRule_def)
  qed
qed

lemma checkOneRule_Inl:
  "checkOneRule E r tx g = Inl e \<longleftrightarrow>
     lookup_featureVector E g tx = Inl e \<or>
     (\<exists>fv. lookup_featureVector E g tx = Inr fv \<and>
        (\<exists>c \<in> set (conditions r). checkOneCondition E c tx fv = Inl e))"
proof (cases "lookup_featureVector E g tx")
  case (Inl e')
  then show ?thesis
    by (simp add: checkOneRule_def)
next
  case (Inr fv)
  then show ?thesis
    using conditions_loop_Inl [of E "conditions r" tx fv "[]" e]
    by (cases "conditions_loop E (conditions r) tx fv []") (simp_all add: checkOneRule_def)
qed

lemma checkOneCondition_returns:
  assumes "actualValue E c tx fv = Inr a" and "primitive a" and "primitive (condition.value c)"
  shows "\<exists>cr. checkOneCondition E c tx fv = Inr cr"
proof (cases "a = JNull \<or> a = JUndefined")
  case True
  with assms(1) show ?thesis
    by (simp add: checkOneCondition_missing)
next
  case False
  obtain sa sv where "to_string E a = Inr sa" "to_string E (condition.value c) = Inr sv"
    using to_string_primitive assms(2,3) by blast
  with assms(1) False show ?thesis
    by (simp add: checkOneCondition_present)
qed

section \<open>The sample data, evaluated\<close>

lemma engine_sample_sel:
  "proto_member engine_sample k =
     (if k = ''constructor'' then Some ''Object''
      else if k = ''__proto__'' then Some ''Object.prototype''
      else if k \<in> set object_prototype_names then Some k else None)"
  "host_string engine_sample n =
     (if n = ''Object.prototype'' then Inr ''[object Object]''
      else Inr (''function '' @ n @ ''() { [native code] }''))"
  by (simp_all add: engine_sample_def)

lemma lookup_T1: "lookup_featureVector E globals_G1 tx_T1 = Inr (Some (Plain fv_T1))"
  by (simp add: lookup_featureVector_def get_prop_def tx_T1_def globals_G1_def)

lemma lookup_T2: "lookup_featureVector engine_sample globals_G1 tx_T2 = Inr None"
  by (simp add: lookup_featureVector_def get_prop_def tx_T2_def globals_G1_def engine_sample_sel
      object_prototype_names_def)

lemma actual_amount_T1: "actualValue E cond_amount tx_T1 fv = Inr (JNum (Fin 1500))"
  by (simp add: actualValue_def cond_amount_def get_prop_def tx_T1_def)

lemma actual_amount_T2: "actualValue E cond_amount tx_T2 fv = Inr (JNum (Fin 500))"
  by (simp add: actualValue_def cond_amount_def get_prop_def tx_T2_def)

lemma actual_currency_T1: "actualValue E cond_currency tx_T1 fv = Inr (JStr ''USD'')"
  by (simp add: actualValue_def cond_currency_def get_prop_def tx_T1_def)

lemma actual_velocity_T1: "actualValue E cond_velocity tx (Some (Plain fv_T1)) = Inr (JNum (Fin 7))"
  by (simp add: actualValue_def cond_velocity_def get_ref_def get_prop_def fv_T1_def)

lemma check_amount_T1:
  "checkOneCondition E cond_amount tx_T1 fv =
     Inr \<lparr>conditionResult.field = JStr ''amount'', op = JStr ''>'', value = JStr ''1000'',
          actual = JNum (Fin 1500), pass = True, source = JStr ''raw''\<rparr>"
  using checkOneCondition_present [OF actual_amount_T1, where sa = "''1500''" and sv = "''1000''"]
  by (simp add: cond_amount_def number_to_string_amounts parse_float_string_integers cmp_eval)

lemma check_amount_T2:
  "checkOneCondition E cond_amount tx_T2 fv =
     Inr \<lparr>conditionResult.field = JStr ''amount'', op = JStr ''>'', value = JStr ''1000'',
          actual = JNum (Fin 500), pass = False, source = JStr ''raw''\<rparr>"
  using checkOneCondition_present [OF actual_amount_T2, where sa = "''500''" and sv = "''1000''"]
  by (simp add: cond_amount_def number_to_string_amounts parse_float_string_integers cmp_eval)

lemma check_currency_T1:
  "checkOneCondition E cond_currency tx_T1 fv =
     Inr \<lparr>conditionResult.field = JStr ''currency'', op = JStr ''=='', value = JStr ''EUR'',
          actual = JStr ''USD'', pass = False, source = JStr ''raw''\<rparr>"
  using checkOneCondition_present [OF actual_currency_T1, where sa = "''USD''" and sv = "''EUR''"]
  by (simp add: cond_currency_def)

lemma check_velocity_T1:
  "checkOneCondition E cond_velocity tx (Some (Plain fv_T1)) =
     Inr \<lparr>conditionResult.field = JStr ''velocity'', op = JStr ''>='', value = JNum (Fin 5),
          actual = JNum (Fin 7), pass = True, source = JStr ''derived''\<rparr>"
  using checkOneCondition_present [OF actual_velocity_T1, where sa = "''7''" and sv = "''5''"]
  by (simp add: cond_velocity_def number_to_string_small parse_float_string_integers cmp_eval)

lemma actual_on_field: "actualValue E (cond_on_field oper v) (tx_field a) fv = Inr a"
  by (simp add: actualValue_def cond_on_field_def tx_field_def get_prop_def)

lemma cond_on_field_sel:
  "condition.op (cond_on_field oper v) = JStr oper" "condition.value (cond_on_field oper v) = v"
  "condition.field (cond_on_field oper v) = JStr ''field''"
  "condition.source (cond_on_field oper v) = JStr ''raw''"
  by (simp_all add: cond_on_field_def)

lemma lower_function: "toLowerCase ''function Object() { [native code] }'' = ''function object() { [native code] }''"
  by (simp add: toLowerCase_def lower_char_def Let_def char_of_def bit_numeral_simps bit_Suc_0_iff)

text \<open>
  A missing value gives \<^verbatim>\<open>NOT FOUND\<close>. A property is missing when neither the object nor
  \<^verbatim>\<open>Object.prototype\<close> has it.
\<close>

lemma checkOneCondition_not_found:
  "(actualValue E c tx fv = Inr a \<and> (a = JNull \<or> a = JUndefined) \<longrightarrow>
      (\<exists>cr. checkOneCondition E c tx fv = Inr cr \<and> conditionResult.pass cr = False \<and>
         conditionResult.actual cr = JStr ''NOT FOUND'')) \<and>
   (condition.source c = JStr ''raw'' \<and> to_string E (condition.field c) = Inr k \<and>
    map_of tx k = None \<and> proto_member E k = None \<longrightarrow>
      (\<exists>cr. checkOneCondition E c tx fv = Inr cr \<and> conditionResult.pass cr = False \<and>
         conditionResult.actual cr = JStr ''NOT FOUND'')) \<and>
   (condition.source c \<noteq> JStr ''raw'' \<and> fv = Some (Plain f) \<and>
    to_string E (condition.field c) = Inr k \<and> map_of f k = None \<and> proto_member E k = None \<longrightarrow>
      (\<exists>cr. checkOneCondition E c tx fv = Inr cr \<and> conditionResult.pass cr = False \<and>
         conditionResult.actual cr = JStr ''NOT FOUND'')) \<and>
   (condition.source c \<noteq> JStr ''raw'' \<and> fv = None \<longrightarrow>
      (\<exists>cr. checkOneCondition E c tx fv = Inr cr \<and> conditionResult.pass cr = False \<and>
         conditionResult.actual cr = JStr ''NOT FOUND''))"
proof -
  have missing: "\<exists>cr. checkOneCondition E c tx fv = Inr cr \<and> conditionResult.pass cr = False \<and>
         conditionResult.actual cr = JStr ''NOT FOUND''"
    if "actualValue E c tx fv = Inr a" "a = JNull \<or> a = JUndefined" for a
    using checkOneCondition_missing [OF that] by simp
  have raw: "actualValue E c tx fv = Inr JUndefined"
    if "condition.source c = JStr ''raw''" "to_string E (condition.field c) = Inr k"
      "map_of tx k = None" "proto_member E k = None"
    using that by (simp add: actualValue_def get_prop_def)
  have derived: "actualValue E c tx fv = Inr JUndefined"
    if "condition.source c \<noteq> JStr ''raw''" "fv = Some (Plain f)"
      "to_string E (condition.field c) = Inr k" "map_of f k = None" "proto_member E k = None"
    using that by (simp add: actualValue_def get_ref_def get_prop_def)
  have absent: "actualValue E c tx fv = Inr JNull"
    if "condition.source c \<noteq> JStr ''raw''" "fv = None"
    using that by (simp add: actualValue_def)
  show ?thesis
  proof (intro conjI impI; elim conjE)
    assume "actualValue E c tx fv = Inr a" "a = JNull \<or> a = JUndefined"
    then show "\<exists>cr. checkOneCondition E c tx fv = Inr cr \<and> conditionResult.pass cr = False \<and>
         conditionResult.actual cr = JStr ''NOT FOUND''"
      by (rule missing)
  next
    assume "condition.source c = JStr ''raw''" "to_string E (condition.field c) = Inr k"
      "map_of tx k = None" "proto_member E k = None"
    then show "\<exists>cr. checkOneCondition E c tx fv = Inr cr \<and> conditionResult.pass cr = False \<and>
         conditionResult.actual cr = JStr ''NOT FOUND''"
      by (intro missing [OF raw]) simp_all
  next
    assume "condition.source c \<noteq> JStr ''raw''" "fv = Some (Plain f)"
      "to_string E (condition.field c) = Inr k" "map_of f k = None" "proto_member E k = None"
    then show "\<exists>cr. checkOneCondition E c tx fv = Inr cr \<and> conditionResult.pass cr = False \<and>
         conditionResult.actual cr = JStr ''NOT FOUND''"
      by (intro missing [OF derived]) simp_all
  next
    assume "condition.source c \<noteq> JStr ''raw''" "fv = None"
    then show "\<exists>cr. checkOneCondition E c tx fv = Inr cr \<and> conditionResult.pass cr = False \<and>
         conditionResult.actual cr = JStr ''NOT FOUND''"
      by (intro missing [OF absent]) simp_all
  qed
qed

lemma actualValue_value_update:
  "actualValue E (c\<lparr>condition.value := v\<rparr>) tx fv = actualValue E c tx fv"
  by (simp add: actualValue_def split: option.split)

text \<open>
  A value whose conversion to a string throws makes \<^verbatim>\<open>checkOneCondition\<close> throw under
  every operator, at line 81 or 82, also where the operator does not use the value.
\<close>

lemma checkOneCondition_own_toString_throws:
  "checkOneCondition E (cond_on_field oper own_toString) (tx_field (JNum (Fin 23))) fv = Inl TypeError"
  "checkOneCondition E (cond_on_field oper (JNum (Fin 5))) (tx_field own_toString) fv = Inl TypeError"
  "checkOneCondition E ((cond_on_field oper (JNum (Fin 5)))\<lparr>condition.field := own_toString\<rparr>)
     (tx_field (JNum (Fin 23))) fv = Inl TypeError"
proof -
  show "checkOneCondition E (cond_on_field oper own_toString) (tx_field (JNum (Fin 23))) fv = Inl TypeError"
    by (rule checkOneCondition_throws [OF actual_on_field, of _ _ TypeError])
      (simp_all add: cond_on_field_sel to_string_own_toString)
  have "own_toString \<noteq> JNull" "own_toString \<noteq> JUndefined"
    by (simp_all add: own_toString_def)
  then show "checkOneCondition E (cond_on_field oper (JNum (Fin 5))) (tx_field own_toString) fv = Inl TypeError"
    by (intro checkOneCondition_throws [OF actual_on_field, of _ _ TypeError])
      (simp_all add: cond_on_field_sel to_string_own_toString)
  have "actualValue E ((cond_on_field oper (JNum (Fin 5)))\<lparr>condition.field := own_toString\<rparr>)
     (tx_field (JNum (Fin 23))) fv = Inl TypeError"
    by (simp add: actualValue_def cond_on_field_def get_prop_def to_string_own_toString)
  then show "checkOneCondition E ((cond_on_field oper (JNum (Fin 5)))\<lparr>condition.field := own_toString\<rparr>)
     (tx_field (JNum (Fin 23))) fv = Inl TypeError"
    by (rule checkOneCondition_lookup_throws)
qed

section \<open>The loops over the transactions\<close>

text \<open>
  As long as \<^verbatim>\<open>checkOneRule\<close> returns on every transaction, the hit count is the number
  of transactions on which the rule fires, the flagged transactions are these
  transactions, and the loops hand the globals on unchanged.
\<close>

lemma checkOneRule_globals:
  "checkOneRule E r tx g = Inr (res, g') \<Longrightarrow> g' = g"
  by (simp add: checkOneRule_Inr)

lemma hitCount_loop_filter:
  assumes "\<forall>tx \<in> set txs. \<exists>res. checkOneRule E r tx g = Inr (res, g)"
  shows "hitCount_loop E r txs n g = Inr (n + length (filter (fires E r g) txs), g)"
  using assms
proof (induction txs arbitrary: n)
  case Nil
  show ?case
    by simp
next
  case (Cons tx txs)
  then obtain res where eq: "checkOneRule E r tx g = Inr (res, g)"
    by auto
  then have f: "fires E r g tx = ruleResult.pass res"
    by (simp add: fires_def)
  from Cons show ?case
    by (simp add: eq f)
qed

lemma flagged_loop_filter:
  assumes "\<forall>tx \<in> set txs. \<exists>res. checkOneRule E r tx g = Inr (res, g)"
  shows "flagged_loop E r txs acc g = Inr (acc @ filter (fires E r g) txs, g)"
  using assms
proof (induction txs arbitrary: acc)
  case Nil
  show ?case
    by simp
next
  case (Cons tx txs)
  then obtain res where eq: "checkOneRule E r tx g = Inr (res, g)"
    by auto
  then have f: "fires E r g tx = ruleResult.pass res"
    by (simp add: fires_def)
  from Cons show ?case
    by (simp add: eq f)
qed

lemma renderRules_hitCount_filter:
  assumes "\<forall>tx \<in> set (transactions g). \<exists>res. checkOneRule E r tx g = Inr (res, g)"
  shows "renderRules_hitCount E r g = Inr (length (filter (fires E r g) (transactions g)))"
  by (simp add: renderRules_hitCount_def hitCount_loop_filter [OF assms])

lemma renderRules_hitPercent_eq:
  assumes "\<forall>tx \<in> set (transactions g). \<exists>res. checkOneRule E r tx g = Inr (res, g)"
  shows "renderRules_hitPercent E r g =
    Inr (hitPercent (length (filter (fires E r g) (transactions g))) (length (transactions g)))"
  by (simp add: renderRules_hitPercent_def hitCount_loop_filter [OF assms])

lemma renderStats_hitPercent_eq:
  assumes "\<forall>tx \<in> set (transactions g). \<exists>res. checkOneRule E r tx g = Inr (res, g)"
  shows "renderStats_hitPercent E r g =
    Inr (hitPercent (length (filter (fires E r g) (transactions g))) (length (transactions g)))"
  by (simp add: renderStats_hitPercent_def flagged_loop_filter [OF assms])

subsection \<open>The sample rules on the sample transactions\<close>

lemma lookup_returns_T1: "\<exists>fv. lookup_featureVector E g tx_T1 = Inr fv"
  by (simp add: lookup_featureVector_def get_prop_def tx_T1_def)

lemma lookup_returns_T2: "\<exists>fv. lookup_featureVector E g tx_T2 = Inr fv"
  by (simp add: lookup_featureVector_def get_prop_def tx_T2_def)

lemma run_R2_T1:
  "checkOneRule E rule_R2 tx_T1 g =
     Inr (\<lparr>ruleResult.pass = True,
            ruleResult.results =
              [\<lparr>conditionResult.field = JStr ''amount'', op = JStr ''>'', value = JStr ''1000'',
                actual = JNum (Fin 1500), pass = True, source = JStr ''raw''\<rparr>]\<rparr>, g)"
proof -
  obtain fv where "lookup_featureVector E g tx_T1 = Inr fv"
    using lookup_returns_T1 by blast
  then show ?thesis
    by (simp add: checkOneRule_def rule_R2_def check_amount_T1)
qed

lemma run_R2_T2:
  "checkOneRule E rule_R2 tx_T2 g =
     Inr (\<lparr>ruleResult.pass = False,
            ruleResult.results =
              [\<lparr>conditionResult.field = JStr ''amount'', op = JStr ''>'', value = JStr ''1000'',
                actual = JNum (Fin 500), pass = False, source = JStr ''raw''\<rparr>]\<rparr>, g)"
proof -
  obtain fv where "lookup_featureVector E g tx_T2 = Inr fv"
    using lookup_returns_T2 by blast
  then show ?thesis
    by (simp add: checkOneRule_def rule_R2_def check_amount_T2)
qed

lemma fires_R2: "fires E rule_R2 g tx_T1" "\<not> fires E rule_R2 g tx_T2"
  by (simp_all add: fires_def run_R2_T1 run_R2_T2)

lemma run_R1_T1:
  "checkOneRule E rule_R1 tx_T1 globals_G1 =
     Inr (\<lparr>ruleResult.pass = False,
            ruleResult.results =
              [\<lparr>conditionResult.field = JStr ''amount'', op = JStr ''>'', value = JStr ''1000'',
                actual = JNum (Fin 1500), pass = True, source = JStr ''raw''\<rparr>,
               \<lparr>conditionResult.field = JStr ''currency'', op = JStr ''=='', value = JStr ''EUR'',
                actual = JStr ''USD'', pass = False, source = JStr ''raw''\<rparr>,
               \<lparr>conditionResult.field = JStr ''velocity'', op = JStr ''>='', value = JNum (Fin 5),
                actual = JNum (Fin 7), pass = True, source = JStr ''derived''\<rparr>]\<rparr>,
          globals_G1)"
  by (simp add: checkOneRule_def lookup_T1 rule_R1_def check_amount_T1 check_currency_T1
      check_velocity_T1)

lemma hitCount_R2_replicate:
  assumes "transactions g = replicate m tx_T1 @ replicate n tx_T2"
  shows "renderRules_hitCount E rule_R2 g = Inr m"
    and "renderRules_hitPercent E rule_R2 g = Inr (hitPercent m (m + n))"
    and "renderStats_hitPercent E rule_R2 g = Inr (hitPercent m (m + n))"
proof -
  have r: "\<forall>tx \<in> set (transactions g). \<exists>res. checkOneRule E rule_R2 tx g = Inr (res, g)"
    by (auto simp add: assms run_R2_T1 run_R2_T2)
  have c: "length (filter (fires E rule_R2 g) (transactions g)) = m"
    by (simp add: assms fires_R2)
  show "renderRules_hitCount E rule_R2 g = Inr m"
    by (simp add: renderRules_hitCount_filter [OF r] c)
  show "renderRules_hitPercent E rule_R2 g = Inr (hitPercent m (m + n))"
    by (simp add: renderRules_hitPercent_eq [OF r] c) (simp add: assms)
  show "renderStats_hitPercent E rule_R2 g = Inr (hitPercent m (m + n))"
    by (simp add: renderStats_hitPercent_eq [OF r] c) (simp add: assms)
qed

text \<open>
  The two examples of the specification: no hit of four gives 0, four of four give 100.
\<close>

lemma hit_percentage_none_and_all:
  "renderRules_hitPercent E rule_R2 (globals_G1\<lparr>transactions := replicate 4 tx_T2\<rparr>) = Inr (Fin 0)"
  "renderStats_hitPercent E rule_R2 (globals_G1\<lparr>transactions := replicate 4 tx_T2\<rparr>) = Inr (Fin 0)"
  "renderRules_hitPercent E rule_R2 (globals_G1\<lparr>transactions := replicate 4 tx_T1\<rparr>) = Inr (Fin 100)"
  "renderStats_hitPercent E rule_R2 (globals_G1\<lparr>transactions := replicate 4 tx_T1\<rparr>) = Inr (Fin 100)"
  using hitCount_R2_replicate(2,3) [of "globals_G1\<lparr>transactions := replicate 4 tx_T2\<rparr>" 0 4 E]
    hitCount_R2_replicate(2,3) [of "globals_G1\<lparr>transactions := replicate 4 tx_T1\<rparr>" 4 0 E]
  by (simp_all add: hitPercent_0_4 hitPercent_4_4)

section \<open>What \<^verbatim>\<open>checkOneRule\<close> writes\<close>

lemma wf_store_featureVector:
  assumes "wf_store s" and "featureVectors_at s k = Some a"
  shows "\<exists>fv. cells s a = Some (ObjectCell fv)"
  using assms unfolding wf_store_def by blast

lemma wf_store_below:
  assumes "wf_store s" and "cells s a = Some c"
  shows "a < fresh s"
  using assms unfolding wf_store_def by (metis option.distinct(1))

lemma deref_other_cell:
  assumes "featureVector \<noteq> Some (At a)" and "cells s' = (cells s)(a \<mapsto> c)"
  shows "deref s' featureVector = deref s featureVector"
proof (cases featureVector)
  case None
  then show ?thesis
    by (simp add: deref_def)
next
  case (Some x)
  with assms show ?thesis
    by (cases x) (simp_all add: deref_def read_object_def)
qed

text \<open>
  In a store as \<^verbatim>\<open>loadData\<close> leaves it, line 121 finds what the global variable
  \<^verbatim>\<open>featureVectors\<close> holds, and what it finds lies below \<open>fresh\<close>.
\<close>

lemma lookup_featureVector_in_deref:
  assumes "wf_store s" and "cells s ta = Some (ObjectCell tx)"
    and "featureVectors g = featureVectors_of s"
  shows "lookup_featureVector E g tx = and_then (lookup_featureVector_in E ta s) (deref s)"
proof (cases "get_prop E tx (JStr ''transaction_id'')")
  case (Inl e)
  then show ?thesis
    using assms(2) by (simp add: lookup_featureVector_def lookup_featureVector_in_def read_object_def)
next
  case id: (Inr id)
  show ?thesis
  proof (cases "to_string E id")
    case (Inl e)
    with id show ?thesis
      using assms(2)
      by (simp add: lookup_featureVector_def lookup_featureVector_in_def read_object_def)
  next
    case k: (Inr k)
    show ?thesis
    proof (cases "featureVectors_at s k")
      case None
      then have "featureVectors g k = None"
        by (simp add: assms(3) featureVectors_of_def)
      with None id k show ?thesis
        using assms(2)
        by (simp add: lookup_featureVector_def lookup_featureVector_in_def read_object_def
            deref_def split: option.split)
    next
      case (Some a)
      then obtain fv where fv: "cells s a = Some (ObjectCell fv)"
        using wf_store_featureVector [OF assms(1)] by blast
      with Some have "featureVectors g k = Some fv"
        by (simp add: assms(3) featureVectors_of_def)
      with Some fv id k show ?thesis
        using assms(2)
        by (simp add: lookup_featureVector_def lookup_featureVector_in_def read_object_def
            deref_def)
    qed
  qed
qed

lemma lookup_featureVector_in_below_fresh:
  assumes "wf_store s" and "lookup_featureVector_in E ta s = Inr featureVector"
  shows "featureVector \<noteq> Some (At (fresh s))"
proof
  assume "featureVector = Some (At (fresh s))"
  with assms(2) obtain k where "featureVectors_at s k = Some (fresh s)"
    by (auto simp add: lookup_featureVector_in_def and_then_Inr_iff
        split: option.splits)
  then obtain fv where "cells s (fresh s) = Some (ObjectCell fv)"
    using wf_store_featureVector [OF assms(1)] by blast
  then show False
    using wf_store_below [OF assms(1)] by fastforce
qed

text \<open>
  The first loop on the store runs as the loop on values does, and writes only to the
  cell of the array \<^verbatim>\<open>conditionResults\<close>. It ends when it is given more turns than
  conditions are left.
\<close>

lemma conditions_loop_in_run:
  assumes "cells s ra = Some (RuleCell r)" and "cells s ta = Some (ObjectCell tx)"
    and "deref s featureVector = Inr fv" and "cells s cra = Some (ResultsCell acc)"
    and "cra \<noteq> ra" and "cra \<noteq> ta" and "featureVector \<noteq> Some (At cra)"
    and "length (conditions r) - i < turns"
  shows "conditions_loop_in turns E ra ta featureVector cra i s =
    Some (case conditions_loop E (drop i (conditions r)) tx fv acc of
            Inl e \<Rightarrow> Inl e
          | Inr rs \<Rightarrow> Inr (s\<lparr>cells := (cells s)(cra \<mapsto> ResultsCell rs)\<rparr>))"
  using assms
proof (induction turns arbitrary: i s acc)
  case 0
  then show ?case
    by simp
next
  case (Suc turns)
  have rule: "read_rule s ra = Inr r"
    using Suc.prems(1) by (simp add: read_rule_def)
  show ?case
  proof (cases "i < length (conditions r)")
    case False
    have "(cells s)(cra \<mapsto> ResultsCell acc) = cells s"
      using Suc.prems(4) by (rule fun_upd_idem)
    with False rule show ?thesis
      by simp
  next
    case True
    then have d: "drop i (conditions r) = conditions r ! i # drop (i + 1) (conditions r)"
      by (simp add: Cons_nth_drop_Suc)
    have c: "checkOneCondition_in E (conditions r ! i) ta featureVector s =
        checkOneCondition E (conditions r ! i) tx fv"
      using Suc.prems(2,3) by (simp add: checkOneCondition_in_def read_object_def)
    show ?thesis
    proof (cases "checkOneCondition E (conditions r ! i) tx fv")
      case (Inl e)
      with True rule c d show ?thesis
        by simp
    next
      case (Inr result)
      define s' where "s' = s\<lparr>cells := (cells s)(cra \<mapsto> ResultsCell (acc @ [result]))\<rparr>"
      have p: "push_result cra result s = Inr s'"
        using Suc.prems(4) by (simp add: push_result_def read_results_def s'_def)
      have "conditions_loop_in turns E ra ta featureVector cra (i + 1) s' =
          Some (case conditions_loop E (drop (i + 1) (conditions r)) tx fv (acc @ [result]) of
                  Inl e \<Rightarrow> Inl e
                | Inr rs \<Rightarrow> Inr (s'\<lparr>cells := (cells s')(cra \<mapsto> ResultsCell rs)\<rparr>))"
      proof (rule Suc.IH)
        show "cells s' ra = Some (RuleCell r)" "cells s' ta = Some (ObjectCell tx)"
          using Suc.prems(1,2,5,6) by (simp_all add: s'_def)
        have "deref s' featureVector = deref s featureVector"
          using Suc.prems(7) by (rule deref_other_cell) (simp add: s'_def)
        then show "deref s' featureVector = Inr fv"
          using Suc.prems(3) by simp
        show "cells s' cra = Some (ResultsCell (acc @ [result]))"
          by (simp add: s'_def)
        show "cra \<noteq> ra" "cra \<noteq> ta" "featureVector \<noteq> Some (At cra)"
          using Suc.prems(5,6,7) by simp_all
        show "length (conditions r) - (i + 1) < turns"
          using Suc.prems(8) True by simp
      qed
      moreover have "s'\<lparr>cells := (cells s')(cra \<mapsto> ResultsCell rs)\<rparr> =
          s\<lparr>cells := (cells s)(cra \<mapsto> ResultsCell rs)\<rparr>" for rs
        by (simp add: s'_def)
      ultimately show ?thesis
        using True rule c d Inr p
        by (cases "conditions_loop E (drop (i + 1) (conditions r)) tx fv (acc @ [result])")
          simp_all
    qed
  qed
qed

text \<open>
  \<^verbatim>\<open>checkOneRule\<close> on a store: it throws when \<^verbatim>\<open>checkOneRule\<close> on values throws, and
  else returns the address of a new cell; the store has changed in the two new cells,
  which hold the result, and nowhere else.
\<close>

lemma checkOneRule_in_run:
  assumes "wf_store s" and "cells s ra = Some (RuleCell r)" and "cells s ta = Some (ObjectCell tx)"
    and "featureVectors g = featureVectors_of s" and "length (conditions r) < turns"
  shows "checkOneRule_in turns E ra ta s =
    Some (case checkOneRule E r tx g of
            Inl e \<Rightarrow> Inl e
          | Inr (res, g') \<Rightarrow>
              Inr (Suc (fresh s),
                   s\<lparr>cells := (cells s)
                        (fresh s \<mapsto> ResultsCell (ruleResult.results res),
                         Suc (fresh s) \<mapsto> RuleResultCell (ruleResult.pass res) (fresh s)),
                     fresh := Suc (Suc (fresh s))\<rparr>))"
proof (cases "lookup_featureVector_in E ta s")
  case (Inl e)
  then have "lookup_featureVector E g tx = Inl e"
    by (simp add: lookup_featureVector_in_deref [OF assms(1,3,4)])
  with Inl show ?thesis
    by (simp add: checkOneRule_in_def checkOneRule_def)
next
  case look: (Inr featureVector)
  have below: "ra < fresh s" "ta < fresh s"
    using wf_store_below [OF assms(1)] assms(2,3) by blast+
  have nf: "featureVector \<noteq> Some (At (fresh s))"
    using assms(1) look by (rule lookup_featureVector_in_below_fresh)
  obtain fv where fv: "deref s featureVector = Inr fv"
  proof (cases featureVector)
    case None
    then show ?thesis
      using that by (simp add: deref_def)
  next
    case (Some x)
    show ?thesis
    proof (cases x)
      case (Builtin n)
      with Some show ?thesis
        using that by (simp add: deref_def)
    next
      case (At a)
      with Some look obtain k where "featureVectors_at s k = Some a"
        by (auto simp add: lookup_featureVector_in_def and_then_Inr_iff split: option.splits)
      then obtain f where "cells s a = Some (ObjectCell f)"
        using wf_store_featureVector [OF assms(1)] by blast
      with Some At show ?thesis
        using that by (simp add: deref_def read_object_def)
    qed
  qed
  have value_look: "lookup_featureVector E g tx = Inr fv"
    using look fv by (simp add: lookup_featureVector_in_deref [OF assms(1,3,4)])
  define s1 where "s1 = s\<lparr>cells := (cells s)(fresh s \<mapsto> ResultsCell []), fresh := Suc (fresh s)\<rparr>"
  have a: "alloc (ResultsCell []) s = (fresh s, s1)"
    by (simp add: alloc_def s1_def)
  have loop: "conditions_loop_in turns E ra ta featureVector (fresh s) 0 s1 =
      Some (case conditions_loop E (drop 0 (conditions r)) tx fv [] of
              Inl e \<Rightarrow> Inl e
            | Inr rs \<Rightarrow> Inr (s1\<lparr>cells := (cells s1)(fresh s \<mapsto> ResultsCell rs)\<rparr>))"
  proof (rule conditions_loop_in_run)
    show "cells s1 ra = Some (RuleCell r)" "cells s1 ta = Some (ObjectCell tx)"
      using assms(2,3) below by (simp_all add: s1_def)
    have "deref s1 featureVector = deref s featureVector"
      using nf by (rule deref_other_cell) (simp add: s1_def)
    then show "deref s1 featureVector = Inr fv"
      using fv by simp
    show "cells s1 (fresh s) = Some (ResultsCell [])"
      by (simp add: s1_def)
    show "fresh s \<noteq> ra" "fresh s \<noteq> ta" "featureVector \<noteq> Some (At (fresh s))"
      using below nf by simp_all
    show "length (conditions r) - 0 < turns"
      using assms(5) by simp
  qed
  show ?thesis
  proof (cases "conditions_loop E (conditions r) tx fv []")
    case (Inl e)
    with loop look a value_look show ?thesis
      by (simp add: checkOneRule_in_def checkOneRule_def)
  next
    case (Inr rs)
    with loop look a value_look show ?thesis
      by (simp add: checkOneRule_in_def checkOneRule_def read_results_def alloc_def s1_def)
  qed
qed

lemma wf_store_two_new_cells:
  fixes s :: store and c d :: cell
  assumes "wf_store s"
  defines "s' \<equiv> s\<lparr>cells := (cells s)(fresh s \<mapsto> c, Suc (fresh s) \<mapsto> d),
                   fresh := Suc (Suc (fresh s))\<rparr>"
  shows "wf_store s'" and "featureVectors_of s' = featureVectors_of s"
    and "cells s x \<noteq> None \<Longrightarrow> cells s' x = cells s x"
    and "cells s (fresh s) = None" and "cells s (Suc (fresh s)) = None"
proof -
  have below: "a < fresh s" if "cells s a \<noteq> None" for a
    using assms(1) that unfolding wf_store_def by blast
  show new: "cells s (fresh s) = None" "cells s (Suc (fresh s)) = None"
    using below [of "fresh s"] below [of "Suc (fresh s)"] by fastforce+
  show same: "cells s' x = cells s x" if "cells s x \<noteq> None" for x
    using below [OF that] by (simp add: s'_def)
  have fv: "\<exists>fv. cells s a = Some (ObjectCell fv)" if "featureVectors_at s k = Some a" for k a
    using assms(1) that by (rule wf_store_featureVector)
  have "a < Suc (Suc (fresh s))" if "cells s' a \<noteq> None" for a
    using that below [of a] by (simp add: s'_def split: if_splits)
  moreover have "\<exists>fv. cells s' a = Some (ObjectCell fv)" if "featureVectors_at s' k = Some a" for k a
  proof -
    from that have "featureVectors_at s k = Some a"
      by (simp add: s'_def)
    then obtain f where f: "cells s a = Some (ObjectCell f)"
      using fv by blast
    then have "cells s' a = cells s a"
      by (intro same) simp
    with f show ?thesis
      by simp
  qed
  ultimately show "wf_store s'"
    unfolding wf_store_def by (simp add: s'_def)
  show "featureVectors_of s' = featureVectors_of s"
  proof
    fix k
    show "featureVectors_of s' k = featureVectors_of s k"
    proof (cases "featureVectors_at s k")
      case None
      then show ?thesis
        by (simp add: featureVectors_of_def s'_def)
    next
      case (Some a)
      then obtain f where f: "cells s a = Some (ObjectCell f)"
        using fv by blast
      then have "cells s' a = cells s a"
        by (intro same) simp
      moreover have "featureVectors_at s' k = Some a"
        using Some by (simp add: s'_def)
      ultimately show ?thesis
        using Some by (simp add: featureVectors_of_def)
    qed
  qed
qed

lemma wf_store_S1: "wf_store store_S1"
  by (auto simp add: wf_store_def store_S1_def split: if_splits)

lemma featureVectors_of_S1: "featureVectors globals_G1 = featureVectors_of store_S1"
  by (auto simp add: fun_eq_iff globals_G1_def featureVectors_of_def store_S1_def)

section \<open>The claims\<close>

text \<open>
  C1. For a rule with N conditions and a transaction, with or without a feature
  vector: when \<^verbatim>\<open>checkOneRule\<close> returns, its result has exactly N condition results, the
  i-th being the result of \<^verbatim>\<open>checkOneCondition\<close> on the i-th condition, whatever the
  results before it are, and its \<^verbatim>\<open>pass\<close> is true if and only if every one of the N
  results has \<^verbatim>\<open>pass = true\<close>. It returns whenever the lookup of the feature vector and
  the evaluation of every condition return, and they do whenever the value each
  condition looks up and the value it compares with are numbers, strings, booleans,
  \<^verbatim>\<open>null\<close> or absent. The example is the first sample rule, whose second condition of
  three fails.
\<close>

theorem checkOneRule_evaluates_every_condition:
  "(\<forall>res g'. checkOneRule E r tx g = Inr (res, g') \<longrightarrow>
      (\<exists>fv. lookup_featureVector E g tx = Inr fv \<and>
         length (ruleResult.results res) = length (conditions r) \<and>
         (\<forall>i < length (conditions r).
            checkOneCondition E (conditions r ! i) tx fv = Inr (ruleResult.results res ! i)) \<and>
         (ruleResult.pass res \<longleftrightarrow>
            (\<forall>cr \<in> set (ruleResult.results res). conditionResult.pass cr = True)))) \<and>
   (\<forall>fv. lookup_featureVector E g tx = Inr fv \<and>
      (\<forall>c \<in> set (conditions r). \<exists>cr. checkOneCondition E c tx fv = Inr cr) \<longrightarrow>
      (\<exists>res. checkOneRule E r tx g = Inr (res, g))) \<and>
   (\<forall>fv. lookup_featureVector E g tx = Inr fv \<and>
      (\<forall>c \<in> set (conditions r).
         \<exists>a. actualValue E c tx fv = Inr a \<and> primitive a \<and> primitive (condition.value c)) \<longrightarrow>
      (\<exists>res. checkOneRule E r tx g = Inr (res, g)))"
proof (intro conjI allI impI)
  fix res g'
  assume "checkOneRule E r tx g = Inr (res, g')"
  then obtain fv where fv: "lookup_featureVector E g tx = Inr fv"
    and all: "list_all2 (\<lambda>c cr. checkOneCondition E c tx fv = Inr cr) (conditions r)
                (ruleResult.results res)"
    and p: "ruleResult.pass res = allPassed_loop (ruleResult.results res)"
    by (auto simp add: checkOneRule_Inr)
  from all have "length (ruleResult.results res) = length (conditions r)"
    and "\<forall>i < length (conditions r).
           checkOneCondition E (conditions r ! i) tx fv = Inr (ruleResult.results res ! i)"
    by (simp_all add: list_all2_conv_all_nth)
  with fv p show "\<exists>fv. lookup_featureVector E g tx = Inr fv \<and>
         length (ruleResult.results res) = length (conditions r) \<and>
         (\<forall>i < length (conditions r).
            checkOneCondition E (conditions r ! i) tx fv = Inr (ruleResult.results res ! i)) \<and>
         (ruleResult.pass res \<longleftrightarrow>
            (\<forall>cr \<in> set (ruleResult.results res). conditionResult.pass cr = True))"
    by (simp add: allPassed_loop_iff)
next
  fix fv
  assume a: "lookup_featureVector E g tx = Inr fv \<and>
      (\<forall>c \<in> set (conditions r). \<exists>cr. checkOneCondition E c tx fv = Inr cr)"
  show "\<exists>res. checkOneRule E r tx g = Inr (res, g)"
  proof (cases "checkOneRule E r tx g")
    case (Inl e)
    with a show ?thesis
      by (auto simp add: checkOneRule_Inl)
  next
    case (Inr p)
    then show ?thesis
      by (cases p) (auto simp add: checkOneRule_Inr)
  qed
next
  fix fv
  assume a: "lookup_featureVector E g tx = Inr fv \<and>
      (\<forall>c \<in> set (conditions r).
         \<exists>a. actualValue E c tx fv = Inr a \<and> primitive a \<and> primitive (condition.value c))"
  then have "\<forall>c \<in> set (conditions r). \<exists>cr. checkOneCondition E c tx fv = Inr cr"
    using checkOneCondition_returns by blast
  with a show "\<exists>res. checkOneRule E r tx g = Inr (res, g)"
    by (cases "checkOneRule E r tx g") (auto simp add: checkOneRule_Inl checkOneRule_Inr)
qed

theorem checkOneRule_evaluates_every_condition_witness:
  "checkOneRule engine_sample rule_R1 tx_T1 globals_G1 =
     Inr (\<lparr>ruleResult.pass = False,
            ruleResult.results =
              [\<lparr>conditionResult.field = JStr ''amount'', op = JStr ''>'', value = JStr ''1000'',
                actual = JNum (Fin 1500), pass = True, source = JStr ''raw''\<rparr>,
               \<lparr>conditionResult.field = JStr ''currency'', op = JStr ''=='', value = JStr ''EUR'',
                actual = JStr ''USD'', pass = False, source = JStr ''raw''\<rparr>,
               \<lparr>conditionResult.field = JStr ''velocity'', op = JStr ''>='', value = JNum (Fin 5),
                actual = JNum (Fin 7), pass = True, source = JStr ''derived''\<rparr>]\<rparr>,
          globals_G1)"
proof -
  note every = checkOneRule_evaluates_every_condition [of engine_sample rule_R1 tx_T1 globals_G1]
  let ?fv = "Some (Plain fv_T1)"
  have c: "conditions rule_R1 = [cond_amount, cond_currency, cond_velocity]"
    by (simp add: rule_R1_def)
  have "\<forall>c \<in> set (conditions rule_R1). \<exists>cr. checkOneCondition engine_sample c tx_T1 ?fv = Inr cr"
    by (simp add: c check_amount_T1 check_currency_T1 check_velocity_T1)
  with every lookup_T1 obtain res
    where run: "checkOneRule engine_sample rule_R1 tx_T1 globals_G1 = Inr (res, globals_G1)"
    by blast
  with every lookup_T1 have l: "length (ruleResult.results res) = length (conditions rule_R1)"
    and n: "\<forall>i < length (conditions rule_R1).
          checkOneCondition engine_sample (conditions rule_R1 ! i) tx_T1 ?fv =
            Inr (ruleResult.results res ! i)"
    and p: "ruleResult.pass res \<longleftrightarrow>
          (\<forall>cr \<in> set (ruleResult.results res). conditionResult.pass cr = True)"
    by fastforce+
  from n have "checkOneCondition engine_sample cond_amount tx_T1 ?fv = Inr (ruleResult.results res ! 0)"
    "checkOneCondition engine_sample cond_currency tx_T1 ?fv = Inr (ruleResult.results res ! 1)"
    "checkOneCondition engine_sample cond_velocity tx_T1 ?fv = Inr (ruleResult.results res ! 2)"
    unfolding c by (simp_all add: All_less_Suc numeral_3_eq_3 numeral_2_eq_2)
  then have rs: "ruleResult.results res =
      [\<lparr>conditionResult.field = JStr ''amount'', op = JStr ''>'', value = JStr ''1000'',
        actual = JNum (Fin 1500), pass = True, source = JStr ''raw''\<rparr>,
       \<lparr>conditionResult.field = JStr ''currency'', op = JStr ''=='', value = JStr ''EUR'',
        actual = JStr ''USD'', pass = False, source = JStr ''raw''\<rparr>,
       \<lparr>conditionResult.field = JStr ''velocity'', op = JStr ''>='', value = JNum (Fin 5),
        actual = JNum (Fin 7), pass = True, source = JStr ''derived''\<rparr>]"
    using l unfolding c check_amount_T1 check_currency_T1 check_velocity_T1
    by (simp add: list_eq_iff_nth_eq All_less_Suc numeral_3_eq_3 numeral_2_eq_2)
  with p have "ruleResult.pass res = False"
    by simp
  with rs run show ?thesis
    by (cases res) simp
qed

text \<open>
  C2, as stated: whenever the value looked up is missing, and so for a raw field absent
  from the transaction, \<^verbatim>\<open>checkOneCondition\<close> returns \<^verbatim>\<open>pass = false\<close> and the actual value
  \<^verbatim>\<open>NOT FOUND\<close>. This fails for a field that is absent from the transaction and that
  \<^verbatim>\<open>Object.prototype\<close> defines: \<^verbatim>\<open>transaction[condition.field]\<close> follows the prototype
  chain. The first sample transaction has no property \<^verbatim>\<open>constructor\<close>; for the condition
  that the raw field \<^verbatim>\<open>constructor\<close> contains \<^verbatim>\<open>function\<close> the code finds the function
  \<^verbatim>\<open>Object\<close>, returns it as the actual value, and returns \<^verbatim>\<open>pass = true\<close>. The comments
  of lines 66 and 75 (\<^verbatim>\<open>get value from transaction file\<close>,
  \<^verbatim>\<open>if we could not find the value then condition fails\<close>) say what the claim says.
\<close>

theorem inherited_field_is_found:
  "map_of tx_T1 ''constructor'' = None \<and>
   checkOneCondition engine_sample cond_constructor tx_T1 None =
     Inr \<lparr>conditionResult.field = JStr ''constructor'', op = JStr ''contains'',
          value = JStr ''function'', actual = JHost ''Object'', pass = True,
          source = JStr ''raw''\<rparr>"
proof -
  have a: "actualValue engine_sample cond_constructor tx_T1 None = Inr (JHost ''Object'')"
    by (simp add: actualValue_def cond_constructor_def get_prop_def tx_T1_def engine_sample_sel)
  have s: "to_string engine_sample (JHost ''Object'') = Inr ''function Object() { [native code] }''"
    "to_string engine_sample (condition.value cond_constructor) = Inr ''function''"
    by (simp_all add: engine_sample_sel cond_constructor_def)
  have l: "toLowerCase ''function'' = ''function''"
    by (simp add: toLowerCase_def lower_char_def Let_def)
  show ?thesis
    using checkOneCondition_present [OF a _ _ s]
    by (simp add: tx_T1_def) (simp add: cond_constructor_def lower_function l starts_with_def)
qed

text \<open>
  C3. For a condition with operator \<^verbatim>\<open>>\<close>, \<^verbatim>\<open><\<close>, \<^verbatim>\<open>>=\<close> or \<^verbatim>\<open><=\<close> and an actual value
  that is not missing, where \<^verbatim>\<open>String\<close> converts the actual value and
  \<^verbatim>\<open>condition.value\<close> (it converts every value but an object with an own \<^verbatim>\<open>toString\<close>):
  \<^verbatim>\<open>checkOneCondition\<close> returns a result, both sides are parsed by \<^verbatim>\<open>parseFloat\<close>, and
  \<^verbatim>\<open>pass\<close> is the comparison of the two doubles. When both parse to finite numbers it is
  the order of these numbers, and when either parses to not-a-number it is false. In
  particular \<^verbatim>\<open>>\<close> with the value \<^verbatim>\<open>abc\<close> against 10 returns \<^verbatim>\<open>pass = false\<close>.
\<close>

theorem numeric_operators_parse_both_sides:
  assumes "actualValue E c tx fv = Inr a" and "a \<noteq> JNull" and "a \<noteq> JUndefined"
    and "to_string E a = Inr sa" and "to_string E (condition.value c) = Inr sv"
    and "condition.op c \<in> {JStr ''>'', JStr ''<'', JStr ''>='', JStr ''<=''}"
  shows
  "\<exists>cr. checkOneCondition E c tx fv = Inr cr \<and>
     conditionResult.actual cr = a \<and>
     parseFloat E a = Inr (parse_float_string sa) \<and>
     parseFloat E (condition.value c) = Inr (parse_float_string sv) \<and>
     conditionResult.pass cr =
       (if condition.op c = JStr ''>'' then num_gt (parse_float_string sa) (parse_float_string sv)
        else if condition.op c = JStr ''<'' then num_lt (parse_float_string sa) (parse_float_string sv)
        else if condition.op c = JStr ''>='' then num_ge (parse_float_string sa) (parse_float_string sv)
        else num_le (parse_float_string sa) (parse_float_string sv)) \<and>
     (\<forall>x y. parse_float_string sa = Fin x \<and> parse_float_string sv = Fin y \<longrightarrow>
        conditionResult.pass cr =
          (if condition.op c = JStr ''>'' then y < x
           else if condition.op c = JStr ''<'' then x < y
           else if condition.op c = JStr ''>='' then y \<le> x
           else x \<le> y)) \<and>
     (parse_float_string sa = NaN \<or> parse_float_string sv = NaN \<longrightarrow>
        conditionResult.pass cr = False)"
  using assms(6) num_cmp_NaN
  by (auto simp add: checkOneCondition_present [OF assms(1-5)] parseFloat_def assms(4,5) num_cmp_Fin)

theorem numeric_operators_parse_both_sides_witness:
  "map_sum id conditionResult.pass
     (checkOneCondition engine_sample (cond_on_field ''>'' (JStr ''abc'')) (tx_field (JNum (Fin 10))) None) = Inr False \<and>
   map_sum id conditionResult.actual
     (checkOneCondition engine_sample (cond_on_field ''>'' (JStr ''abc'')) (tx_field (JNum (Fin 10))) None) = Inr (JNum (Fin 10)) \<and>
   map_sum id conditionResult.pass
     (checkOneCondition engine_sample (cond_on_field ''>'' (JStr ''1000'')) (tx_field (JNum (Fin 1500))) None) = Inr True \<and>
   map_sum id conditionResult.pass
     (checkOneCondition engine_sample (cond_on_field ''>'' (JStr ''1.5e3'')) (tx_field (JNum (Fin 1500))) None) = Inr False \<and>
   map_sum id conditionResult.pass
     (checkOneCondition engine_sample (cond_on_field ''>='' (JStr ''1.5e3'')) (tx_field (JNum (Fin 1500))) None) = Inr True \<and>
   map_sum id conditionResult.pass
     (checkOneCondition engine_sample (cond_on_field ''>='' (JNum (Fin 1500))) (tx_field (JStr ''1000'')) None) = Inr False \<and>
   map_sum id conditionResult.pass
     (checkOneCondition engine_sample (cond_on_field ''<'' (JStr ''1000'')) (tx_field (JNum (Fin 500))) None) = Inr True \<and>
   map_sum id conditionResult.pass
     (checkOneCondition engine_sample (cond_on_field ''<'' (JStr ''1000'')) (tx_field (JNum (Fin 1500))) None) = Inr False \<and>
   map_sum id conditionResult.pass
     (checkOneCondition engine_sample (cond_on_field ''<'' (JStr ''Infinity'')) (tx_field (JNum (Fin 1500))) None) = Inr True \<and>
   map_sum id conditionResult.pass
     (checkOneCondition engine_sample (cond_on_field ''<='' (JStr ''1000'')) (tx_field (JNum (Fin 1500))) None) = Inr False \<and>
   map_sum id conditionResult.pass
     (checkOneCondition engine_sample (cond_on_field ''<='' (JStr ''1500'')) (tx_field (JNum (Fin 1500))) None) = Inr True"
proof -
  have inst: "map_sum id conditionResult.pass
       (checkOneCondition engine_sample (cond_on_field oper v) (tx_field a) None) =
     Inr (if oper = ''>'' then num_gt (parse_float_string sa) (parse_float_string sv)
          else if oper = ''<'' then num_lt (parse_float_string sa) (parse_float_string sv)
          else if oper = ''>='' then num_ge (parse_float_string sa) (parse_float_string sv)
          else num_le (parse_float_string sa) (parse_float_string sv)) \<and>
     map_sum id conditionResult.actual
       (checkOneCondition engine_sample (cond_on_field oper v) (tx_field a) None) = Inr a"
    if "a \<noteq> JNull" "a \<noteq> JUndefined" "to_string engine_sample a = Inr sa"
      "to_string engine_sample v = Inr sv" "oper \<in> {''>'', ''<'', ''>='', ''<=''}"
    for oper v a sa sv
  proof -
    have "condition.op (cond_on_field oper v) \<in> {JStr ''>'', JStr ''<'', JStr ''>='', JStr ''<=''}"
      using that(5) by (auto simp add: cond_on_field_sel)
    from numeric_operators_parse_both_sides
      [where sv = sv and fv = None and E = engine_sample and c = "cond_on_field oper v", OF actual_on_field that(1,2,3) _ this] that(4,5)
    show ?thesis
      by (auto simp add: cond_on_field_sel)
  qed
  note vals = number_to_string_hours number_to_string_amounts parse_float_string_integers
    parse_float_string_forms parse_float_string_NaN cmp_eval
  show ?thesis
    using inst [of "JNum (Fin 10)" "''10''" "JStr ''abc''" "''abc''" "''>''"]
      inst [of "JNum (Fin 1500)" "''1500''" "JStr ''1000''" "''1000''" "''>''"]
      inst [of "JNum (Fin 1500)" "''1500''" "JStr ''1.5e3''" "''1.5e3''" "''>''"]
      inst [of "JNum (Fin 1500)" "''1500''" "JStr ''1.5e3''" "''1.5e3''" "''>=''"]
      inst [of "JStr ''1000''" "''1000''" "JNum (Fin 1500)" "''1500''" "''>=''"]
      inst [of "JNum (Fin 500)" "''500''" "JStr ''1000''" "''1000''" "''<''"]
      inst [of "JNum (Fin 1500)" "''1500''" "JStr ''1000''" "''1000''" "''<''"]
      inst [of "JNum (Fin 1500)" "''1500''" "JStr ''Infinity''" "''Infinity''" "''<''"]
      inst [of "JNum (Fin 1500)" "''1500''" "JStr ''1000''" "''1000''" "''<=''"]
      inst [of "JNum (Fin 1500)" "''1500''" "JStr ''1500''" "''1500''" "''<=''"]
    by (simp add: vals)
qed

text \<open>
  C4. For a condition with operator \<^verbatim>\<open>==\<close> or \<^verbatim>\<open>!=\<close> and an actual value that is not
  missing, where \<^verbatim>\<open>String\<close> converts the actual value and \<^verbatim>\<open>condition.value\<close>:
  \<^verbatim>\<open>checkOneCondition\<close> returns a result, \<^verbatim>\<open>==\<close> passes if and only if the two strings
  are equal and \<^verbatim>\<open>!=\<close> if and only if they differ. In particular the value \<^verbatim>\<open>"5"\<close>
  matches the number 5, and \<^verbatim>\<open>"5.0"\<close> does not.
\<close>

theorem equality_operators_compare_strings:
  assumes "actualValue E c tx fv = Inr a" and "a \<noteq> JNull" and "a \<noteq> JUndefined"
    and "to_string E a = Inr sa" and "to_string E (condition.value c) = Inr sv"
  shows
  "\<exists>cr. checkOneCondition E c tx fv = Inr cr \<and>
     conditionResult.actual cr = a \<and>
     (condition.op c = JStr ''=='' \<longrightarrow> conditionResult.pass cr = (sa = sv)) \<and>
     (condition.op c = JStr ''!='' \<longrightarrow> conditionResult.pass cr = (sa \<noteq> sv))"
  by (simp add: checkOneCondition_present [OF assms])

theorem equality_operators_compare_strings_witness:
  "map_sum id conditionResult.pass
     (checkOneCondition engine_sample (cond_on_field ''=='' (JStr ''5'')) (tx_field (JNum (Fin 5))) None) = Inr True \<and>
   map_sum id conditionResult.pass
     (checkOneCondition engine_sample (cond_on_field ''!='' (JStr ''5'')) (tx_field (JNum (Fin 5))) None) = Inr False \<and>
   map_sum id conditionResult.pass
     (checkOneCondition engine_sample (cond_on_field ''=='' (JStr ''5.0'')) (tx_field (JNum (Fin 5))) None) = Inr False \<and>
   map_sum id conditionResult.pass
     (checkOneCondition engine_sample (cond_on_field ''!='' (JStr ''5.0'')) (tx_field (JNum (Fin 5))) None) = Inr True \<and>
   map_sum id conditionResult.pass
     (checkOneCondition engine_sample (cond_on_field ''=='' (JStr ''1,2''))
        (tx_field (JArr [JNum (Fin 1), JNum (Fin 2)])) None) = Inr True \<and>
   map_sum id conditionResult.pass
     (checkOneCondition engine_sample (cond_on_field ''=='' (JBool True)) (tx_field (JStr ''true'')) None) = Inr True"
proof -
  have inst: "map_sum id conditionResult.pass
       (checkOneCondition engine_sample (cond_on_field oper v) (tx_field a) None) =
     Inr (if oper = ''=='' then sa = sv else sa \<noteq> sv)"
    if "a \<noteq> JNull" "a \<noteq> JUndefined" "to_string engine_sample a = Inr sa"
      "to_string engine_sample v = Inr sv" "oper \<in> {''=='', ''!=''}"
    for oper v a sa sv
    using equality_operators_compare_strings
      [where sv = sv and fv = None and E = engine_sample and c = "cond_on_field oper v",
        OF actual_on_field that(1,2,3)] that(4,5)
    by (auto simp add: cond_on_field_sel)
  show ?thesis
    using inst [of "JNum (Fin 5)" "''5''" "JStr ''5''" "''5''" "''==''"]
      inst [of "JNum (Fin 5)" "''5''" "JStr ''5''" "''5''" "''!=''"]
      inst [of "JNum (Fin 5)" "''5''" "JStr ''5.0''" "''5.0''" "''==''"]
      inst [of "JNum (Fin 5)" "''5''" "JStr ''5.0''" "''5.0''" "''!=''"]
      inst [of "JArr [JNum (Fin 1), JNum (Fin 2)]" "''1,2''" "JStr ''1,2''" "''1,2''" "''==''"]
      inst [of "JStr ''true''" "''true''" "JBool True" "''true''" "''==''"]
    by (simp add: number_to_string_small)
qed

text \<open>
  C5. For a condition with operator \<^verbatim>\<open>out_of_hours\<close> and an actual value that is not
  missing, where \<^verbatim>\<open>String\<close> converts the actual value and \<^verbatim>\<open>condition.value\<close>:
  \<^verbatim>\<open>checkOneCondition\<close> returns a result that passes if and only if the actual value,
  parsed as a number, is \<^verbatim>\<open>>= 22\<close> or \<^verbatim>\<open><= 5\<close>, and the result passes or fails alike with
  every other \<^verbatim>\<open>condition.value\<close> that \<^verbatim>\<open>String\<close> converts. In particular 23 passes and
  12 fails.
\<close>

theorem out_of_hours_ignores_value:
  assumes "actualValue E c tx fv = Inr a" and "a \<noteq> JNull" and "a \<noteq> JUndefined"
    and "to_string E a = Inr sa" and "to_string E (condition.value c) = Inr sv"
    and "condition.op c = JStr ''out_of_hours''"
  shows
  "\<exists>cr. checkOneCondition E c tx fv = Inr cr \<and>
     conditionResult.actual cr = a \<and>
     parseFloat E a = Inr (parse_float_string sa) \<and>
     conditionResult.pass cr =
       (num_ge (parse_float_string sa) (Fin 22) \<or> num_le (parse_float_string sa) (Fin 5)) \<and>
     (\<forall>x. parse_float_string sa = Fin x \<longrightarrow> conditionResult.pass cr = (22 \<le> x \<or> x \<le> 5)) \<and>
     (parse_float_string sa = NaN \<longrightarrow> conditionResult.pass cr = False) \<and>
     (\<forall>v s. to_string E v = Inr s \<longrightarrow>
        (\<exists>cr'. checkOneCondition E (c\<lparr>condition.value := v\<rparr>) tx fv = Inr cr' \<and>
           conditionResult.pass cr' = conditionResult.pass cr \<and>
           conditionResult.actual cr' = conditionResult.actual cr))"
proof -
  have other: "\<exists>cr'. checkOneCondition E (c\<lparr>condition.value := v\<rparr>) tx fv = Inr cr' \<and>
      conditionResult.pass cr' =
        (num_ge (parse_float_string sa) (Fin 22) \<or> num_le (parse_float_string sa) (Fin 5)) \<and>
      conditionResult.actual cr' = a"
    if "to_string E v = Inr s" for v s
  proof -
    have "actualValue E (c\<lparr>condition.value := v\<rparr>) tx fv = Inr a"
      using assms(1) by (simp add: actualValue_value_update)
    from checkOneCondition_present [OF this assms(2,3,4), of s] that assms(6)
    show ?thesis
      by simp
  qed
  have here: "checkOneCondition E c tx fv =
      Inr \<lparr>conditionResult.field = condition.field c, op = condition.op c,
           value = condition.value c, actual = a,
           pass = (num_ge (parse_float_string sa) (Fin 22) \<or> num_le (parse_float_string sa) (Fin 5)),
           source = condition.source c\<rparr>"
    using checkOneCondition_present [OF assms(1-5)] assms(6) by simp
  have nan: "\<not> (num_ge NaN (Fin 22) \<or> num_le NaN (Fin 5))"
    by (simp add: num_cmp_NaN)
  show ?thesis
    using other nan by (simp add: here parseFloat_def assms(4) num_cmp_Fin) blast
qed

theorem out_of_hours_ignores_value_witness:
  "map_sum id conditionResult.pass
     (checkOneCondition engine_sample (cond_on_field ''out_of_hours'' (JStr ''anything''))
        (tx_field (JNum (Fin 23))) None) = Inr True \<and>
   map_sum id conditionResult.pass
     (checkOneCondition engine_sample (cond_on_field ''out_of_hours'' JUndefined)
        (tx_field (JNum (Fin 23))) None) = Inr True \<and>
   map_sum id conditionResult.pass
     (checkOneCondition engine_sample (cond_on_field ''out_of_hours'' (JStr ''anything''))
        (tx_field (JNum (Fin 12))) None) = Inr False \<and>
   map_sum id conditionResult.pass
     (checkOneCondition engine_sample (cond_on_field ''out_of_hours'' (JNum (Fin 5)))
        (tx_field (JNum (Fin 12))) None) = Inr False \<and>
   map_sum id conditionResult.pass
     (checkOneCondition engine_sample (cond_on_field ''out_of_hours'' (JStr ''anything''))
        (tx_field (JStr ''5'')) None) = Inr True \<and>
   map_sum id conditionResult.pass
     (checkOneCondition engine_sample (cond_on_field ''out_of_hours'' (JNum (Fin 23)))
        (tx_field (JStr ''abc'')) None) = Inr False"
proof -
  have inst: "map_sum id conditionResult.pass
       (checkOneCondition engine_sample (cond_on_field ''out_of_hours'' v) (tx_field a) None) =
       Inr (num_ge (parse_float_string sa) (Fin 22) \<or> num_le (parse_float_string sa) (Fin 5)) \<and>
     map_sum id conditionResult.pass
       (checkOneCondition engine_sample (cond_on_field ''out_of_hours'' v') (tx_field a) None) =
       Inr (num_ge (parse_float_string sa) (Fin 22) \<or> num_le (parse_float_string sa) (Fin 5))"
    if "a \<noteq> JNull" "a \<noteq> JUndefined" "to_string engine_sample a = Inr sa"
      "to_string engine_sample v = Inr sv" "to_string engine_sample v' = Inr sv'"
    for v v' a sa sv sv'
  proof -
    have u: "(cond_on_field ''out_of_hours'' v)\<lparr>condition.value := v'\<rparr> =
        cond_on_field ''out_of_hours'' v'"
      by (simp add: cond_on_field_def)
    have v4: "to_string engine_sample (condition.value (cond_on_field ''out_of_hours'' v)) = Inr sv"
      using that(4) by (simp add: cond_on_field_sel)
    have o6: "condition.op (cond_on_field ''out_of_hours'' v) = JStr ''out_of_hours''"
      by (simp add: cond_on_field_sel)
    from out_of_hours_ignores_value [OF actual_on_field that(1,2,3) v4 o6, of None]
    obtain cr where cr: "checkOneCondition engine_sample (cond_on_field ''out_of_hours'' v)
          (tx_field a) None = Inr cr"
      and p: "conditionResult.pass cr =
          (num_ge (parse_float_string sa) (Fin 22) \<or> num_le (parse_float_string sa) (Fin 5))"
      and o: "\<forall>w s. to_string engine_sample w = Inr s \<longrightarrow>
        (\<exists>cr'. checkOneCondition engine_sample ((cond_on_field ''out_of_hours'' v)\<lparr>condition.value := w\<rparr>)
            (tx_field a) None = Inr cr' \<and>
           conditionResult.pass cr' = conditionResult.pass cr \<and>
           conditionResult.actual cr' = conditionResult.actual cr)"
      by blast
    from o [rule_format, OF that(5)] obtain cr' where
      "checkOneCondition engine_sample (cond_on_field ''out_of_hours'' v') (tx_field a) None = Inr cr'"
      "conditionResult.pass cr' = conditionResult.pass cr"
      by (auto simp add: u)
    with cr p show ?thesis
      by simp
  qed
  note vals = number_to_string_hours number_to_string_small parse_float_string_integers
    parse_float_string_NaN cmp_eval
  show ?thesis
    using inst [of "JNum (Fin 23)" "''23''" "JStr ''anything''" "''anything''" JUndefined "''undefined''"]
      inst [of "JNum (Fin 12)" "''12''" "JStr ''anything''" "''anything''" "JNum (Fin 5)" "''5''"]
      inst [of "JStr ''5''" "''5''" "JStr ''anything''" "''anything''" "JStr ''anything''" "''anything''"]
      inst [of "JStr ''abc''" "''abc''" "JNum (Fin 23)" "''23''" "JNum (Fin 23)" "''23''"]
    by (simp add: vals)
qed

text \<open>
  C6, as stated: for every rule and every non-empty collection of transactions the hit
  percentage equals \<^verbatim>\<open>round(100 * passCount / totalCount)\<close>. This fails. The code
  computes \<^verbatim>\<open>Math.round((hitCount / transactions.length) * 100)\<close> in doubles, dividing
  before it multiplies: for 23 hits of 40 the quotient is the double below 0.575, the
  product is 57.49999999999999, and the hit percentage is 57, in \<^verbatim>\<open>renderRules\<close> and in
  \<^verbatim>\<open>renderStats\<close>, while \<open>100 * 23 / 40 = 57.5\<close> rounds to 58.
\<close>

theorem hit_percentage_counterexample:
  "transactions globals_G40 \<noteq> [] \<and>
   length (transactions globals_G40) = 40 \<and>
   renderRules_hitCount E rule_R2 globals_G40 = Inr 23 \<and>
   renderRules_hitPercent E rule_R2 globals_G40 = Inr (Fin 57) \<and>
   renderStats_hitPercent E rule_R2 globals_G40 = Inr (Fin 57) \<and>
   spec_hitPercent 23 40 = 58"
proof -
  have t: "transactions globals_G40 = replicate 23 tx_T1 @ replicate 17 tx_T2"
    by (simp add: globals_G40_def)
  have s: "spec_hitPercent 23 40 = 58"
    by (simp add: spec_hitPercent_def)
  show ?thesis
    using hitCount_R2_replicate [OF t, of E]
    by (simp add: s hitPercent_23_40) (simp add: t)
qed

text \<open>
  C7. With no rules, \<^verbatim>\<open>checkAllRules\<close> returns the empty list. With no transactions the
  hit count of a rule is 0, but its hit percentage is not 0: the code divides 0 by the
  length 0, which is NaN, and \<^verbatim>\<open>Math.round\<close> and the product keep it, so that both
  \<^verbatim>\<open>renderRules\<close> and \<^verbatim>\<open>renderStats\<close> put \<^verbatim>\<open>NaN\<close> into the page.
\<close>

theorem empty_transactions_hit_percentage_NaN:
  "checkAllRules E tx_T1 (globals_G1\<lparr>rules := []\<rparr>) = Inr ([], globals_G1\<lparr>rules := []\<rparr>) \<and>
   renderRules_hitCount E rule_R1 (globals_G1\<lparr>transactions := []\<rparr>) = Inr 0 \<and>
   renderRules_hitPercent E rule_R1 (globals_G1\<lparr>transactions := []\<rparr>) = Inr NaN \<and>
   renderStats_hitPercent E rule_R1 (globals_G1\<lparr>transactions := []\<rparr>) = Inr NaN \<and>
   map_sum id number_to_string
     (renderRules_hitPercent E rule_R1 (globals_G1\<lparr>transactions := []\<rparr>)) = Inr ''NaN''"
  by (simp add: checkAllRules_def renderRules_hitPercent_def renderStats_hitPercent_def
      renderRules_hitCount_def hitPercent_0_0 number_to_string_def)

text \<open>
  C8. \<^verbatim>\<open>checkOneRule\<close> on a store in which the rule, the transaction and the feature
  vectors lie, given more turns than the rule has conditions: it throws when
  \<^verbatim>\<open>checkOneRule\<close> on the values throws; else it returns the address of a new cell that
  holds the \<^verbatim>\<open>pass\<close> and, in a second new cell, the condition results that
  \<^verbatim>\<open>checkOneRule\<close> on the values returns. Every other cell of the store is as before, so
  the rule, the transaction and every feature vector are, and so is the global
  \<^verbatim>\<open>featureVectors\<close>. Evaluating once more in the store it leaves returns the same
  \<^verbatim>\<open>pass\<close> and the same condition results in the same order, in two further cells, and
  leaves the result of the first evaluation as it is.
\<close>

theorem checkOneRule_writes_only_new_cells:
  assumes "wf_store s" and "cells s ra = Some (RuleCell r)" and "cells s ta = Some (ObjectCell tx)"
    and "featureVectors g = featureVectors_of s" and "length (conditions r) < turns"
  shows
  "(\<forall>e. checkOneRule E r tx g = Inl e \<longrightarrow> checkOneRule_in turns E ra ta s = Some (Inl e)) \<and>
   (\<forall>res g'. checkOneRule E r tx g = Inr (res, g') \<longrightarrow>
      (\<exists>a cra s'. checkOneRule_in turns E ra ta s = Some (Inr (a, s')) \<and>
         cells s' a = Some (RuleResultCell (ruleResult.pass res) cra) \<and>
         cells s' cra = Some (ResultsCell (ruleResult.results res)) \<and>
         cells s a = None \<and> cells s cra = None \<and>
         (\<forall>x. x \<noteq> a \<and> x \<noteq> cra \<longrightarrow> cells s' x = cells s x) \<and>
         cells s' ra = Some (RuleCell r) \<and> cells s' ta = Some (ObjectCell tx) \<and>
         featureVectors_at s' = featureVectors_at s \<and>
         featureVectors_of s' = featureVectors_of s \<and>
         (\<exists>a2 cra2 s2. checkOneRule_in turns E ra ta s' = Some (Inr (a2, s2)) \<and>
            cells s2 a2 = Some (RuleResultCell (ruleResult.pass res) cra2) \<and>
            cells s2 cra2 = Some (ResultsCell (ruleResult.results res)) \<and>
            cells s2 a = cells s' a \<and> cells s2 cra = cells s' cra \<and>
            (\<forall>x. cells s x \<noteq> None \<longrightarrow> cells s2 x = cells s x))))"
proof (intro conjI allI impI)
  fix e
  assume "checkOneRule E r tx g = Inl e"
  then show "checkOneRule_in turns E ra ta s = Some (Inl e)"
    by (simp add: checkOneRule_in_run [OF assms])
next
  fix res g'
  assume run: "checkOneRule E r tx g = Inr (res, g')"
  define cra where "cra = fresh s"
  define a where "a = Suc (fresh s)"
  define s' where "s' = s\<lparr>cells := (cells s)
      (fresh s \<mapsto> ResultsCell (ruleResult.results res),
       Suc (fresh s) \<mapsto> RuleResultCell (ruleResult.pass res) (fresh s)),
      fresh := Suc (Suc (fresh s))\<rparr>"
  note new = wf_store_two_new_cells(1-3) [OF assms(1),
      where c = "ResultsCell (ruleResult.results res)"
      and d = "RuleResultCell (ruleResult.pass res) (fresh s)", folded s'_def]
  have first: "checkOneRule_in turns E ra ta s = Some (Inr (a, s'))"
    using run by (simp add: checkOneRule_in_run [OF assms] a_def s'_def)
  have kept: "cells s' ra = Some (RuleCell r)" "cells s' ta = Some (ObjectCell tx)"
    using new(3) [of ra] new(3) [of ta] assms(2,3) by simp_all
  have g: "featureVectors g = featureVectors_of s'"
    using assms(4) new(2) by simp
  define cra2 where "cra2 = fresh s'"
  define a2 where "a2 = Suc (fresh s')"
  define s2 where "s2 = s'\<lparr>cells := (cells s')
      (fresh s' \<mapsto> ResultsCell (ruleResult.results res),
       Suc (fresh s') \<mapsto> RuleResultCell (ruleResult.pass res) (fresh s')),
      fresh := Suc (Suc (fresh s'))\<rparr>"
  have second: "checkOneRule_in turns E ra ta s' = Some (Inr (a2, s2))"
    using run by (simp add: checkOneRule_in_run [OF new(1) kept g assms(5)] a2_def s2_def)
  have f': "fresh s' = Suc (Suc (fresh s))"
    by (simp add: s'_def)
  have content: "cells s' a = Some (RuleResultCell (ruleResult.pass res) cra)"
    "cells s' cra = Some (ResultsCell (ruleResult.results res))"
    by (simp_all add: s'_def a_def cra_def)
  have content2: "cells s2 a2 = Some (RuleResultCell (ruleResult.pass res) cra2)"
    "cells s2 cra2 = Some (ResultsCell (ruleResult.results res))"
    by (simp_all add: s2_def a2_def cra2_def)
  have stay: "cells s2 a = cells s' a" "cells s2 cra = cells s' cra"
    by (simp_all add: s2_def f' a_def cra_def)
  have old: "cells s2 x = cells s x" if "cells s x \<noteq> None" for x
  proof -
    have "cells s' x = cells s x"
      using that by (rule new(3))
    moreover from this that have "cells s' x \<noteq> None"
      by simp
    then have "cells s2 x = cells s' x"
      using wf_store_two_new_cells(3) [OF new(1), where x = x] by (simp add: s2_def)
    ultimately show ?thesis
      by simp
  qed
  have frame: "cells s' x = cells s x" if "x \<noteq> a \<and> x \<noteq> cra" for x
    using that by (simp add: s'_def a_def cra_def)
  have fresh_cells: "cells s a = None" "cells s cra = None"
    using wf_store_two_new_cells(4,5) [OF assms(1)] by (simp_all add: a_def cra_def)
  have at: "featureVectors_at s' = featureVectors_at s"
    by (simp add: s'_def)
  show "\<exists>a cra s'. checkOneRule_in turns E ra ta s = Some (Inr (a, s')) \<and>
         cells s' a = Some (RuleResultCell (ruleResult.pass res) cra) \<and>
         cells s' cra = Some (ResultsCell (ruleResult.results res)) \<and>
         cells s a = None \<and> cells s cra = None \<and>
         (\<forall>x. x \<noteq> a \<and> x \<noteq> cra \<longrightarrow> cells s' x = cells s x) \<and>
         cells s' ra = Some (RuleCell r) \<and> cells s' ta = Some (ObjectCell tx) \<and>
         featureVectors_at s' = featureVectors_at s \<and>
         featureVectors_of s' = featureVectors_of s \<and>
         (\<exists>a2 cra2 s2. checkOneRule_in turns E ra ta s' = Some (Inr (a2, s2)) \<and>
            cells s2 a2 = Some (RuleResultCell (ruleResult.pass res) cra2) \<and>
            cells s2 cra2 = Some (ResultsCell (ruleResult.results res)) \<and>
            cells s2 a = cells s' a \<and> cells s2 cra = cells s' cra \<and>
            (\<forall>x. cells s x \<noteq> None \<longrightarrow> cells s2 x = cells s x))"
    using first content fresh_cells frame kept at new(2) second content2 stay old
    by blast
qed

theorem checkOneRule_writes_only_new_cells_witness:
  "\<exists>a cra s'. checkOneRule_in 4 engine_sample 0 1 store_S1 = Some (Inr (a, s')) \<and>
     cells s' a = Some (RuleResultCell False cra) \<and>
     cells s' cra = Some (ResultsCell
       [\<lparr>conditionResult.field = JStr ''amount'', op = JStr ''>'', value = JStr ''1000'',
         actual = JNum (Fin 1500), pass = True, source = JStr ''raw''\<rparr>,
        \<lparr>conditionResult.field = JStr ''currency'', op = JStr ''=='', value = JStr ''EUR'',
         actual = JStr ''USD'', pass = False, source = JStr ''raw''\<rparr>,
        \<lparr>conditionResult.field = JStr ''velocity'', op = JStr ''>='', value = JNum (Fin 5),
         actual = JNum (Fin 7), pass = True, source = JStr ''derived''\<rparr>]) \<and>
     cells s' 0 = Some (RuleCell rule_R1) \<and>
     cells s' 1 = Some (ObjectCell tx_T1) \<and>
     cells s' 2 = Some (ObjectCell fv_T1) \<and>
     featureVectors_at s' = featureVectors_at store_S1 \<and>
     (\<exists>a2 cra2 s2. checkOneRule_in 4 engine_sample 0 1 s' = Some (Inr (a2, s2)) \<and>
        cells s2 a2 = Some (RuleResultCell False cra2) \<and>
        cells s2 cra2 = cells s' cra \<and>
        cells s2 a = cells s' a \<and>
        cells s2 2 = Some (ObjectCell fv_T1))"
proof -
  let ?rs = "[\<lparr>conditionResult.field = JStr ''amount'', op = JStr ''>'', value = JStr ''1000'',
         actual = JNum (Fin 1500), pass = True, source = JStr ''raw''\<rparr>,
        \<lparr>conditionResult.field = JStr ''currency'', op = JStr ''=='', value = JStr ''EUR'',
         actual = JStr ''USD'', pass = False, source = JStr ''raw''\<rparr>,
        \<lparr>conditionResult.field = JStr ''velocity'', op = JStr ''>='', value = JNum (Fin 5),
         actual = JNum (Fin 7), pass = True, source = JStr ''derived''\<rparr>]"
  let ?res = "\<lparr>ruleResult.pass = False, ruleResult.results = ?rs\<rparr>"
  have c: "cells store_S1 0 = Some (RuleCell rule_R1)" "cells store_S1 1 = Some (ObjectCell tx_T1)"
    "cells store_S1 2 = Some (ObjectCell fv_T1)"
    by (simp_all add: store_S1_def)
  have l: "length (conditions rule_R1) < 4"
    by (simp add: rule_R1_def)
  have run: "checkOneRule engine_sample rule_R1 tx_T1 globals_G1 = Inr (?res, globals_G1)"
    by (rule run_R1_T1)
  from checkOneRule_writes_only_new_cells [OF wf_store_S1 c(1,2) featureVectors_of_S1 l,
      of engine_sample] run
  obtain a cra s' a2 cra2 s2 where first: "checkOneRule_in 4 engine_sample 0 1 store_S1 = Some (Inr (a, s'))"
    and content: "cells s' a = Some (RuleResultCell (ruleResult.pass ?res) cra)"
      "cells s' cra = Some (ResultsCell (ruleResult.results ?res))"
    and new: "cells store_S1 a = None" "cells store_S1 cra = None"
    and frame: "\<forall>x. x \<noteq> a \<and> x \<noteq> cra \<longrightarrow> cells s' x = cells store_S1 x"
    and kept: "cells s' 0 = Some (RuleCell rule_R1)" "cells s' 1 = Some (ObjectCell tx_T1)"
    and at: "featureVectors_at s' = featureVectors_at store_S1"
    and second: "checkOneRule_in 4 engine_sample 0 1 s' = Some (Inr (a2, s2))"
    and content2: "cells s2 a2 = Some (RuleResultCell (ruleResult.pass ?res) cra2)"
      "cells s2 cra2 = Some (ResultsCell (ruleResult.results ?res))"
    and stay: "cells s2 a = cells s' a" "cells s2 cra = cells s' cra"
    and old: "\<forall>x. cells store_S1 x \<noteq> None \<longrightarrow> cells s2 x = cells store_S1 x"
    by blast
  from new c(3) have "2 \<noteq> a \<and> 2 \<noteq> cra"
    by auto
  with frame c(3) have two: "cells s' 2 = Some (ObjectCell fv_T1)"
    by simp
  from old c(3) have two2: "cells s2 2 = Some (ObjectCell fv_T1)"
    by simp
  from first content kept two at second content2 stay two2 show ?thesis
    by simp
qed

text \<open>
  C9. For a condition whose operator is none of \<^verbatim>\<open>==\<close>, \<^verbatim>\<open>!=\<close>, \<^verbatim>\<open>>\<close>, \<^verbatim>\<open><\<close>, \<^verbatim>\<open>>=\<close>, \<^verbatim>\<open><=\<close>,
  \<^verbatim>\<open>contains\<close>, \<^verbatim>\<open>out_of_hours\<close>, and whose actual value is not missing, where \<^verbatim>\<open>String\<close>
  converts the actual value and \<^verbatim>\<open>condition.value\<close> (both are parsed before the
  operator is looked at): \<^verbatim>\<open>checkOneCondition\<close> returns a result with \<^verbatim>\<open>pass = false\<close> and
  the actual value, not an error.
\<close>

theorem unknown_operator_fails:
  assumes "actualValue E c tx fv = Inr a" and "a \<noteq> JNull" and "a \<noteq> JUndefined"
    and "to_string E a = Inr sa" and "to_string E (condition.value c) = Inr sv"
    and "condition.op c \<notin> {JStr ''=='', JStr ''!='', JStr ''>'', JStr ''<'', JStr ''>='', JStr ''<='',
           JStr ''contains'', JStr ''out_of_hours''}"
  shows "checkOneCondition E c tx fv =
           Inr \<lparr>conditionResult.field = condition.field c, op = condition.op c,
                value = condition.value c, actual = a, pass = False,
                source = condition.source c\<rparr>"
  using assms(6) by (simp add: checkOneCondition_present [OF assms(1-5)])

theorem unknown_operator_fails_witness:
  "checkOneCondition engine_sample (cond_on_field ''='' (JNum (Fin 5))) (tx_field (JNum (Fin 5))) None =
     Inr \<lparr>conditionResult.field = JStr ''field'', op = JStr ''='', value = JNum (Fin 5),
          actual = JNum (Fin 5), pass = False, source = JStr ''raw''\<rparr> \<and>
   checkOneCondition engine_sample (cond_on_field ''CONTAINS'' (JStr ''U''))
       (tx_field (JStr ''USD'')) None =
     Inr \<lparr>conditionResult.field = JStr ''field'', op = JStr ''CONTAINS'', value = JStr ''U'',
          actual = JStr ''USD'', pass = False, source = JStr ''raw''\<rparr> \<and>
   map_sum id conditionResult.pass
     (checkOneCondition engine_sample ((cond_on_field ''='' (JNum (Fin 5)))\<lparr>condition.op := JUndefined\<rparr>)
        (tx_field (JNum (Fin 5))) None) = Inr False"
proof -
  have b: "actualValue engine_sample ((cond_on_field oper v)\<lparr>condition.op := w\<rparr>) (tx_field a) None = Inr a"
    for oper v a w
    by (simp add: actualValue_def cond_on_field_def tx_field_def get_prop_def)
  have s: "to_string engine_sample (JNum (Fin 5)) = Inr ''5''"
    by (simp add: number_to_string_small)
  show ?thesis
    using unknown_operator_fails
        [where E = engine_sample and c = "cond_on_field ''='' (JNum (Fin 5))" and fv = None
          and sv = "''5''", OF actual_on_field _ _ s]
      unknown_operator_fails
        [where E = engine_sample and c = "cond_on_field ''CONTAINS'' (JStr ''U'')" and fv = None
          and sv = "''U''" and a = "JStr ''USD''" and sa = "''USD''", OF actual_on_field]
      unknown_operator_fails
        [where E = engine_sample
          and c = "(cond_on_field ''='' (JNum (Fin 5)))\<lparr>condition.op := JUndefined\<rparr>"
          and fv = None and sv = "''5''", OF b _ _ s]
    by (simp add: cond_on_field_sel number_to_string_small)
qed

text \<open>
  C10. \<^verbatim>\<open>checkOneCondition\<close> treats every condition whose source is not exactly the
  string \<^verbatim>\<open>"raw"\<close> as a feature-vector lookup: the actual value is read from the feature
  vector when there is one and is missing otherwise, and the transaction is not read.
  Only the source \<^verbatim>\<open>"raw"\<close> reads the transaction, and then the feature vector is not read.
\<close>

theorem source_other_than_raw_reads_feature_vector:
  "(condition.source c \<noteq> JStr ''raw'' \<longrightarrow>
      (\<forall>f. actualValue E c tx (Some f) = get_ref E f (condition.field c)) \<and>
      (\<forall>f. actualValue E c tx (Some (Plain f)) = get_prop E f (condition.field c)) \<and>
      actualValue E c tx None = Inr JNull \<and>
      checkOneCondition E c tx None =
        Inr \<lparr>conditionResult.field = condition.field c, op = condition.op c,
             value = condition.value c, actual = JStr ''NOT FOUND'', pass = False,
             source = condition.source c\<rparr> \<and>
      (\<forall>tx'. checkOneCondition E c tx' fv = checkOneCondition E c tx fv)) \<and>
   (condition.source c = JStr ''raw'' \<longrightarrow>
      actualValue E c tx fv = get_prop E tx (condition.field c) \<and>
      (\<forall>fv'. checkOneCondition E c tx fv' = checkOneCondition E c tx fv))"
proof (intro conjI impI allI)
  assume s: "condition.source c \<noteq> JStr ''raw''"
  show "actualValue E c tx (Some f) = get_ref E f (condition.field c)" for f
    using s by (simp add: actualValue_def)
  show "actualValue E c tx (Some (Plain f)) = get_prop E f (condition.field c)" for f
    using s by (simp add: actualValue_def get_ref_def)
  show n: "actualValue E c tx None = Inr JNull"
    using s by (simp add: actualValue_def)
  show "checkOneCondition E c tx None =
        Inr \<lparr>conditionResult.field = condition.field c, op = condition.op c,
             value = condition.value c, actual = JStr ''NOT FOUND'', pass = False,
             source = condition.source c\<rparr>"
    using n by (simp add: checkOneCondition_missing)
  have "actualValue E c tx' fv = actualValue E c tx fv" for tx'
    using s by (simp add: actualValue_def)
  then show "checkOneCondition E c tx' fv = checkOneCondition E c tx fv" for tx'
    by (rule checkOneCondition_cong)
next
  assume s: "condition.source c = JStr ''raw''"
  show "actualValue E c tx fv = get_prop E tx (condition.field c)"
    using s by (simp add: actualValue_def)
  have "actualValue E c tx fv' = actualValue E c tx fv" for fv'
    using s by (simp add: actualValue_def)
  then show "checkOneCondition E c tx fv' = checkOneCondition E c tx fv" for fv'
    by (rule checkOneCondition_cong)
qed

theorem source_other_than_raw_reads_feature_vector_witness:
  "map_sum id conditionResult.actual
     (checkOneCondition engine_sample (cond_velocity\<lparr>condition.source := JStr ''RAW''\<rparr>) tx_T1
        (Some (Plain fv_T1))) = Inr (JNum (Fin 7)) \<and>
   map_sum id conditionResult.actual
     (checkOneCondition engine_sample (cond_amount\<lparr>condition.source := JUndefined\<rparr>) tx_T1
        (Some (Plain fv_T1))) = Inr (JStr ''NOT FOUND'') \<and>
   map_sum id conditionResult.actual
     (checkOneCondition engine_sample (cond_amount\<lparr>condition.source := JStr ''Raw''\<rparr>) tx_T1 None) =
       Inr (JStr ''NOT FOUND'') \<and>
   map_sum id conditionResult.actual
     (checkOneCondition engine_sample cond_amount tx_T1 None) = Inr (JNum (Fin 1500)) \<and>
   map_sum id conditionResult.actual
     (checkOneCondition engine_sample cond_amount tx_T1 (Some (Plain fv_T1))) = Inr (JNum (Fin 1500))"
proof -
  let ?E = engine_sample
  let ?c1 = "cond_velocity\<lparr>condition.source := JStr ''RAW''\<rparr>"
  let ?c2 = "cond_amount\<lparr>condition.source := JUndefined\<rparr>"
  let ?c3 = "cond_amount\<lparr>condition.source := JStr ''Raw''\<rparr>"
  have a: "condition.source ?c1 \<noteq> JStr ''raw''" "condition.source ?c2 \<noteq> JStr ''raw''"
      "condition.source ?c3 \<noteq> JStr ''raw''" "condition.source cond_amount = JStr ''raw''"
    by (simp_all add: cond_amount_def)
  have f: "get_prop ?E fv_T1 (condition.field ?c1) = Inr (JNum (Fin 7))"
     "get_prop ?E fv_T1 (condition.field ?c2) = Inr JUndefined"
     "get_prop ?E tx_T1 (condition.field cond_amount) = Inr (JNum (Fin 1500))"
    by (simp_all add: get_prop_def fv_T1_def tx_T1_def cond_velocity_def cond_amount_def
        engine_sample_sel object_prototype_names_def)
  have v: "to_string ?E (JNum (Fin 7)) = Inr ''7''" "to_string ?E (JNum (Fin 1500)) = Inr ''1500''"
    "to_string ?E (condition.value ?c1) = Inr ''5''"
    "to_string ?E (condition.value cond_amount) = Inr ''1000''"
    by (simp_all add: number_to_string_small number_to_string_amounts cond_velocity_def
        cond_amount_def)
  have 1: "map_sum id conditionResult.actual
      (checkOneCondition ?E ?c1 tx_T1 (Some (Plain fv_T1))) = Inr (JNum (Fin 7))"
  proof -
    from source_other_than_raw_reads_feature_vector [of ?c1 ?E tx_T1 "Some (Plain fv_T1)"] a(1) f(1)
    have "actualValue ?E ?c1 tx_T1 (Some (Plain fv_T1)) = Inr (JNum (Fin 7))"
      by (simp add: get_ref_def)
    from checkOneCondition_present [OF this _ _ v(1,3)] show ?thesis
      by simp
  qed
  have 2: "map_sum id conditionResult.actual
      (checkOneCondition ?E ?c2 tx_T1 (Some (Plain fv_T1))) = Inr (JStr ''NOT FOUND'')"
  proof -
    from source_other_than_raw_reads_feature_vector [of ?c2 ?E tx_T1 "Some (Plain fv_T1)"] a(2) f(2)
    have "actualValue ?E ?c2 tx_T1 (Some (Plain fv_T1)) = Inr JUndefined"
      by (simp add: get_ref_def)
    then show ?thesis
      by (simp add: checkOneCondition_missing)
  qed
  have 3: "map_sum id conditionResult.actual
      (checkOneCondition ?E ?c3 tx_T1 None) = Inr (JStr ''NOT FOUND'')"
    using source_other_than_raw_reads_feature_vector [of ?c3 ?E tx_T1 None] a(3)
    by simp
  have 4: "map_sum id conditionResult.actual
      (checkOneCondition ?E cond_amount tx_T1 fv) = Inr (JNum (Fin 1500))" for fv
  proof -
    from source_other_than_raw_reads_feature_vector [of cond_amount ?E tx_T1 fv] a(4) f(3)
    have "actualValue ?E cond_amount tx_T1 fv = Inr (JNum (Fin 1500))"
      by simp
    from checkOneCondition_present [OF this _ _ v(2,4)] show ?thesis
      by simp
  qed
  from 1 2 3 4 [of None] 4 [of "Some (Plain fv_T1)"] show ?thesis
    by simp
qed

end
